theory Spec2Isabelle
  imports Complex_Main "HOL-Library.Sublist" "HOL-Library.Log_Nat"
begin

section \<open>JavaScript values\<close>

text \<open>
  The agent is TypeScript (\<^verbatim>\<open>chat-form-handler\<close>, class \<^verbatim>\<open>FMGlobal834Agent\<close>).
  Its numbers are IEEE doubles. A number is modelled by the rational that the double
  denotes; \<^verbatim>\<open>NaN\<close> and the infinities are outside the model. A division by zero is
  \<^verbatim>\<open>Infinity\<close> or \<^verbatim>\<open>NaN\<close> in the source and \<open>0\<close> in HOL, and a result beyond the
  largest double is \<^verbatim>\<open>Infinity\<close> in the source, so a theorem about all inputs states
  that its divisors are not zero and bounds the inputs so that nothing overflows.

  An arithmetic operation on doubles returns the double nearest to the exact result.
  That rounding is \<open>fl\<close> below, and it is written out in the sprinkler count and in
  the cost breakdown, where it decides results that are stated for all inputs.
  The comparisons, \<^verbatim>\<open>Math.ceil\<close>, \<^verbatim>\<open>Math.round\<close>, \<^verbatim>\<open>Math.min\<close> and \<^verbatim>\<open>Math.max\<close> are
  exact on doubles. The flow rate is kept in exact arithmetic because its products
  are exact in doubles (\<open>20 * 1.2\<close>, \<open>25 * 1.2\<close>, \<open>30 * 1.2\<close> and \<open>35 * 1.2\<close>
  round to 24, 30, 36 and 42, and a product of these with a sprinkler count of at most
  12 is a whole number). The pressure and the savings of the suggestions are kept in
  exact arithmetic too; the theorems use their values only at concrete inputs, where
  the doubles give the same whole numbers.
\<close>

type_synonym number = rat

definition Math_ceil :: "number \<Rightarrow> number" where
  "Math_ceil x = of_int \<lceil>x\<rceil>"

text \<open>\<^verbatim>\<open>Math.round\<close> rounds to the nearest integer, a half towards plus infinity.\<close>

definition Math_round :: "number \<Rightarrow> number" where
  "Math_round x = of_int \<lfloor>x + 1 / 2\<rfloor>"

text \<open>A number in a condition is false exactly when it is zero (there is no \<^verbatim>\<open>NaN\<close> here).\<close>

definition truthy :: "number \<Rightarrow> bool" where
  "truthy x = (x \<noteq> 0)"

text \<open>
  Rounding to the nearest double. A double other than zero is a whole multiple
  \<open>m * 2\<^sup>e\<^sup>-\<^sup>5\<^sup>2\<close> with \<open>2\<^sup>5\<^sup>2 \<le> \<bar>m\<bar> < 2\<^sup>5\<^sup>3\<close>; \<open>ilog2 x\<close> is the exponent
  \<open>e\<close> with \<open>2\<^sup>e \<le> x < 2\<^sup>e\<^sup>+\<^sup>1\<close>, found from the bit lengths of the numerator and
  the denominator, and a tie goes to the even multiple. The exponent is not bounded:
  overflow and the subnormal numbers are not modelled.
\<close>

definition pow2 :: "int \<Rightarrow> rat" where
  "pow2 k = (if 0 \<le> k then 2 ^ nat k else 1 / 2 ^ nat (- k))"

definition ilog2 :: "rat \<Rightarrow> int" where
  "ilog2 x = (let (a, b) = quotient_of x; c = bitlen a - bitlen b
              in if pow2 c \<le> x then c else c - 1)"

definition round_even :: "rat \<Rightarrow> int" where
  "round_even m = (let f = \<lfloor>m\<rfloor>; d = m - of_int f
                   in if d < 1 / 2 then f else if 1 / 2 < d then f + 1
                      else if even f then f else f + 1)"

definition fl :: "number \<Rightarrow> number" where
  "fl x = (if x = 0 then 0
           else let u = pow2 (ilog2 \<bar>x\<bar> - 52) in of_int (round_even (x / u)) * u)"

text \<open>
  Strings are lists of characters. \<^verbatim>\<open>s.includes(sub)\<close> looks for \<open>sub\<close> as a
  contiguous piece of \<open>s\<close>; \<^verbatim>\<open>s.replace(pat, rep)\<close> with a string pattern replaces
  the first occurrence only; \<^verbatim>\<open>toLowerCase\<close> is modelled on the ASCII letters.
\<close>

fun str_includes :: "string \<Rightarrow> string \<Rightarrow> bool" where
  "str_includes [] sub = (sub = [])"
| "str_includes (c # cs) sub = (prefix sub (c # cs) \<or> str_includes cs sub)"

fun str_replace :: "string \<Rightarrow> string \<Rightarrow> string \<Rightarrow> string" where
  "str_replace [] pat rep = (if pat = [] then rep else [])"
| "str_replace (c # cs) pat rep =
     (if prefix pat (c # cs) then rep @ drop (length pat) (c # cs)
      else c # str_replace cs pat rep)"

definition lower_char :: "char \<Rightarrow> char" where
  "lower_char c =
     (let n = (of_char c :: nat) in if 65 \<le> n \<and> n \<le> 90 then char_of (n + 32) else c)"

definition toLowerCase :: "string \<Rightarrow> string" where
  "toLowerCase s = map lower_char s"

text \<open>\<^verbatim>\<open>xs[0]\<close> is \<^verbatim>\<open>undefined\<close> on an empty array.\<close>

definition at0 :: "'a list \<Rightarrow> 'a option" where
  "at0 xs = (case xs of [] \<Rightarrow> None | x # _ \<Rightarrow> Some x)"

text \<open>
  \<^verbatim>\<open>Array.prototype.sort\<close> is stable; with a comparator \<open>cmp\<close> that is consistent,
  \<open>a\<close> ends before \<open>b\<close> when \<open>cmp a b < 0\<close> and elements that compare equal keep
  their order. It is modelled as an insertion sort from the right.
\<close>

fun insert_by :: "('a \<Rightarrow> 'a \<Rightarrow> number) \<Rightarrow> 'a \<Rightarrow> 'a list \<Rightarrow> 'a list" where
  "insert_by cmp x [] = [x]"
| "insert_by cmp x (y # ys) =
     (if cmp x y \<le> 0 then x # y # ys else y # insert_by cmp x ys)"

definition array_sort :: "('a \<Rightarrow> 'a \<Rightarrow> number) \<Rightarrow> 'a list \<Rightarrow> 'a list" where
  "array_sort cmp xs = foldr (insert_by cmp) xs []"

datatype error = Error string

section \<open>Types and interfaces\<close>

text \<open>
  The string-literal unions of \<^verbatim>\<open>ASRSConfiguration\<close> are strings at run time and are
  compared as strings (\<^verbatim>\<open>config.asrs_type === 'Mini-Load'\<close>), so they are strings
  here; an absent or empty field is the empty string. Where two interfaces have a
  field of the same name, all but one carry a prefix.
\<close>

record ASRSConfiguration =
  asrs_type :: string
  container_type :: string
  rack_depth_ft :: number
  rack_spacing_ft :: number
  ceiling_height_ft :: number
  aisle_width_ft :: number
  commodity_type :: "string list"
  storage_height_ft :: number
  system_type :: string
  building_type :: "string option"
  sprinkler_coverage :: "string option"
  expected_throughput :: "string option"

text \<open>
  A value of type \<^verbatim>\<open>any\<close> that comes out of \<^verbatim>\<open>JSON.parse\<close> is a JSON value;
  \<^verbatim>\<open>null\<close>, \<^verbatim>\<open>false\<close>, \<^verbatim>\<open>0\<close> and the empty string are the falsy ones.
\<close>

datatype json =
  JNull | JBool bool | JNum number | JStr string | JArr "json list" | JObj "(string \<times> json) list"

fun json_truthy :: "json \<Rightarrow> bool" where
  "json_truthy JNull = False"
| "json_truthy (JBool b) = b"
| "json_truthy (JNum n) = truthy n"
| "json_truthy (JStr s) = (s \<noteq> [])"
| "json_truthy (JArr _) = True"
| "json_truthy (JObj _) = True"

record TableResult =
  t_id :: string
  table_number :: number
  table_id :: string
  t_title :: string
  t_asrs_type :: string
  t_protection_scheme :: string
  design_parameters :: json
  sprinkler_specifications :: json
  special_conditions :: json
  content_text :: string
  t_similarity :: number
  t_applicable_conditions :: "string list"

text \<open>The object returned by \<^verbatim>\<open>performDesignCalculations\<close>.\<close>

record DesignCalculation =
  total_sprinklers :: number
  sprinkler_spacing :: number
  protection_scheme :: string
  design_area_sqft :: number
  flow_rate_gpm :: number
  pressure_psi :: number

record ValidationResult =
  compliant :: bool
  violations :: "string list"
  warnings :: "string list"
  required_modifications :: "string list"

text \<open>The object returned by \<^verbatim>\<open>validateConfiguration\<close>.\<close>

record ConfigurationCheck =
  valid :: bool
  errors :: "string list"

section \<open>Design calculations\<close>

definition selectPrimaryDesignTable ::
  "TableResult list \<Rightarrow> ASRSConfiguration \<Rightarrow> TableResult option" where
  "selectPrimaryDesignTable tables config =
     (let exactMatches = filter (\<lambda>t.
            toLowerCase (t_asrs_type t) = toLowerCase (asrs_type config) \<and>
            str_includes (t_protection_scheme t) (system_type config)) tables
      in if length exactMatches > 0 then at0 exactMatches
         else
           let partialMatches = filter (\<lambda>t.
                 toLowerCase (t_asrs_type t) = toLowerCase (asrs_type config) \<or>
                 t_asrs_type t = ''both'') tables
           in if length partialMatches > 0 then at0 partialMatches else at0 tables)"

definition estimateNumberOfRacks :: "ASRSConfiguration \<Rightarrow> number" where
  "estimateNumberOfRacks config =
     (let typicalWarehouseSize = 10000;
          rackFootprint = fl (rack_depth_ft config * 30)
      in Math_ceil (fl (typicalWarehouseSize / rackFootprint)))"

definition calculateFlowRate :: "ASRSConfiguration \<Rightarrow> number \<Rightarrow> number" where
  "calculateFlowRate config sprinklerCount =
     (let baseFlowPerSprinkler = 20;
          baseFlowPerSprinkler =
            (if list_ex (\<lambda>c. str_includes c ''Class III'') (commodity_type config)
             then 25 else baseFlowPerSprinkler);
          baseFlowPerSprinkler =
            (if list_ex (\<lambda>c. str_includes c ''Class IV'') (commodity_type config)
             then 30 else baseFlowPerSprinkler);
          baseFlowPerSprinkler =
            (if list_ex (\<lambda>c. str_includes c ''Plastic'') (commodity_type config)
             then 35 else baseFlowPerSprinkler);
          baseFlowPerSprinkler =
            (if ceiling_height_ft config > 30
             then baseFlowPerSprinkler * 1.2 else baseFlowPerSprinkler)
      in Math_ceil (baseFlowPerSprinkler * min sprinklerCount 12))"

definition calculatePressureRequirement :: "ASRSConfiguration \<Rightarrow> number \<Rightarrow> number" where
  "calculatePressureRequirement config flowRate =
     (let basePressure = 15;
          kFactor = (if sprinkler_coverage config = Some ''extended'' then 14.0 else 11.2);
          requiredPressure = (flowRate / kFactor) ^ 2;
          elevationPressure = ceiling_height_ft config * 0.433;
          frictionLoss = flowRate * 0.1
      in Math_ceil (max basePressure requiredPressure + elevationPressure + frictionLoss))"

text \<open>
  The next three definitions are the local variables \<^verbatim>\<open>sprinklerSpacing\<close>,
  \<^verbatim>\<open>sprinklersPerRack\<close> and \<^verbatim>\<open>protectionScheme\<close> of
  \<^verbatim>\<open>performDesignCalculations\<close>, each with the assignments that the source makes
  to it, in the source's order. The locals that the function computes and never
  reads (\<^verbatim>\<open>designParams\<close>, \<^verbatim>\<open>sprinklerSpecs\<close>, \<^verbatim>\<open>rackArea\<close>,
  \<^verbatim>\<open>storageVolume\<close>) are left out.
\<close>

definition sprinklerSpacing :: "ASRSConfiguration \<Rightarrow> number" where
  "sprinklerSpacing config =
     (let sprinklerSpacing = 8;
          sprinklerSpacing =
            (if container_type config = ''Open-Top'' \<and> rack_depth_ft config > 6
             then 6 else sprinklerSpacing);
          sprinklerSpacing =
            (if asrs_type config = ''Mini-Load''
             then min sprinklerSpacing 7 else sprinklerSpacing)
      in sprinklerSpacing)"

definition sprinklersPerRack :: "ASRSConfiguration \<Rightarrow> number \<Rightarrow> number" where
  "sprinklersPerRack config spacing =
     fl (Math_ceil (fl (rack_depth_ft config / spacing)) *
         Math_ceil (fl (rack_spacing_ft config / spacing)))"

definition protectionScheme :: "ASRSConfiguration \<Rightarrow> string" where
  "protectionScheme config =
     (let protectionScheme = ''Ceiling-only wet system'';
          protectionScheme =
            (if storage_height_ft config > 25 \<or>
                list_ex (\<lambda>c. str_includes c ''Plastic'') (commodity_type config)
             then ''Ceiling plus in-rack protection'' else protectionScheme);
          protectionScheme =
            (if system_type config = ''dry''
             then str_replace protectionScheme ''wet'' ''dry'' else protectionScheme)
      in protectionScheme)"

definition performDesignCalculations ::
  "ASRSConfiguration \<Rightarrow> TableResult list \<Rightarrow> error + DesignCalculation" where
  "performDesignCalculations config tables =
     (case selectPrimaryDesignTable tables config of
        None \<Rightarrow> Inl (Error ''No applicable design tables found for configuration'')
      | Some primaryTable \<Rightarrow>
          let spacing = sprinklerSpacing config;
              totalSprinklers =
                fl (sprinklersPerRack config spacing * estimateNumberOfRacks config);
              designAreaSqft = fl (totalSprinklers * spacing ^ 2);
              flowRateGpm = calculateFlowRate config totalSprinklers;
              pressurePsi = calculatePressureRequirement config flowRateGpm
          in Inr \<lparr> total_sprinklers = totalSprinklers,
                   sprinkler_spacing = spacing,
                   protection_scheme = protectionScheme config,
                   design_area_sqft = designAreaSqft,
                   flow_rate_gpm = flowRateGpm,
                   pressure_psi = pressurePsi \<rparr>)"

section \<open>Validation and compliance\<close>

definition validateConfiguration :: "ASRSConfiguration \<Rightarrow> ConfigurationCheck" where
  "validateConfiguration config =
     (let errors =
        (if asrs_type config = [] then [''ASRS type is required''] else []) @
        (if container_type config = [] then [''Container type is required''] else []) @
        (if \<not> truthy (rack_depth_ft config) \<or> rack_depth_ft config < 3
         then [''Rack depth must be at least 3 feet''] else []) @
        (if \<not> truthy (rack_spacing_ft config) \<or> rack_spacing_ft config < 2.5
         then [''Rack spacing must be at least 2.5 feet''] else []) @
        (if \<not> truthy (ceiling_height_ft config) \<or> ceiling_height_ft config < 15
         then [''Ceiling height must be at least 15 feet''] else []) @
        (if \<not> truthy (storage_height_ft config)
         then [''Storage height is required''] else []) @
        (if commodity_type config = []
         then [''At least one commodity type is required''] else []) @
        (if system_type config = [] then [''System type is required''] else []) @
        (if truthy (storage_height_ft config) \<and> truthy (ceiling_height_ft config) \<and>
            storage_height_ft config \<ge> ceiling_height_ft config - 4
         then [''Storage height must be at least 4 feet below ceiling''] else [])
      in \<lparr> valid = (length errors = 0), errors = errors \<rparr>)"

definition validateDesignCompliance ::
  "ASRSConfiguration \<Rightarrow> DesignCalculation \<Rightarrow> ValidationResult" where
  "validateDesignCompliance config calculations =
     (let violations =
        (if ceiling_height_ft config - storage_height_ft config < 4
         then [''Minimum 4ft clearance required between storage top and ceiling''] else []) @
        (if sprinkler_spacing calculations > 10
         then [''Maximum sprinkler spacing of 10ft exceeded''] else []);
          warnings =
        (if list_ex (\<lambda>c. str_includes c ''Expanded Plastic'') (commodity_type config) \<and>
            container_type config = ''Open-Top''
         then [''Expanded plastics in open containers require enhanced protection - verify table compliance'']
         else []);
          required_modifications =
        (if pressure_psi calculations > 175
         then [''System pressure exceeds 175 PSI - pressure reducing valves required'']
         else [])
      in \<lparr> compliant = (length violations = 0),
           violations = violations,
           warnings = warnings,
           required_modifications = required_modifications \<rparr>)"

section \<open>Cost calculation\<close>

text \<open>
  Template literals print numbers into the descriptions of the line items. The
  conversion of a number to its decimal text is not part of the agent and no
  computation reads the digits back, so it is a parameter \<open>toString\<close> of the
  functions that build descriptions.
\<close>

record Sprinkler =
  s_type :: string
  s_kfactor :: string
  s_quantity :: number
  s_unit_cost :: number

record Pipe =
  p_size :: string
  p_length :: number
  p_unit_cost :: number

record Fitting =
  fit_type :: string
  fit_quantity :: number
  fit_unit_cost :: number

record Pump =
  pump_type :: string
  pump_gpm :: number
  pump_pressure :: number
  pump_unit_cost :: number

record EquipmentList =
  sprinklers :: "Sprinkler list"
  piping :: "Pipe list"
  fittings :: "Fitting list"
  pumps :: "Pump list option"
  total_estimated_cost :: number

record CostLineItem =
  item_description :: string
  item_unit_cost :: number
  item_quantity :: number
  item_total :: number

record CostBreakdown =
  items :: "CostLineItem list"
  subtotal :: number
  labor :: number
  cb_total :: number

text \<open>
  The local variable \<^verbatim>\<open>subtotal\<close> of \<^verbatim>\<open>calculateComprehensiveCost\<close>: the
  \<^verbatim>\<open>reduce\<close> that adds the line totals from left to right, each sum a double.
\<close>

definition material_subtotal :: "CostLineItem list \<Rightarrow> number" where
  "material_subtotal line_items =
     foldl (\<lambda>sum item. fl (sum + item_total item)) 0 line_items"

definition calculateComprehensiveCost ::
  "(number \<Rightarrow> string) \<Rightarrow> EquipmentList \<Rightarrow> ASRSConfiguration \<Rightarrow> CostBreakdown" where
  "calculateComprehensiveCost toString equipment config =
     (let items =
        map (\<lambda>sprinkler.
          \<lparr> item_description =
              s_type sprinkler @ '' Sprinklers ('' @ toString (s_quantity sprinkler) @ '')'',
            item_unit_cost = s_unit_cost sprinkler,
            item_quantity = s_quantity sprinkler,
            item_total = fl (s_quantity sprinkler * s_unit_cost sprinkler) \<rparr>) (sprinklers equipment) @
        map (\<lambda>pipe.
          \<lparr> item_description = p_size pipe @ '' Pipe ('' @ toString (p_length pipe) @ '' ft)'',
            item_unit_cost = p_unit_cost pipe,
            item_quantity = p_length pipe,
            item_total = fl (p_length pipe * p_unit_cost pipe) \<rparr>) (piping equipment) @
        map (\<lambda>fitting.
          \<lparr> item_description = fit_type fitting @ '' ('' @ toString (fit_quantity fitting) @ '')'',
            item_unit_cost = fit_unit_cost fitting,
            item_quantity = fit_quantity fitting,
            item_total = fl (fit_quantity fitting * fit_unit_cost fitting) \<rparr>) (fittings equipment) @
        (case pumps equipment of
           None \<Rightarrow> []
         | Some ps \<Rightarrow>
             map (\<lambda>pump.
               \<lparr> item_description =
                   pump_type pump @ '' ('' @ toString (pump_gpm pump) @ '' GPM @ '' @
                   toString (pump_pressure pump) @ '' PSI)'',
                 item_unit_cost = pump_unit_cost pump,
                 item_quantity = 1,
                 item_total = pump_unit_cost pump \<rparr>) ps);
          subtotal = material_subtotal items;
          labor = Math_round (fl (subtotal * fl 0.4));
          total = fl (subtotal + labor)
      in \<lparr> items = items, subtotal = Math_round subtotal, labor = labor, cb_total = total \<rparr>)"

section \<open>Optimization suggestions\<close>

record OptimizationSuggestion =
  o_type :: string
  o_description :: string
  estimated_savings :: number
  feasibility :: string
  requirements_impact :: string
  new_configuration :: "ASRSConfiguration option"

definition calculateSpacingOptimization :: "DesignCalculation \<Rightarrow> CostBreakdown \<Rightarrow> number" where
  "calculateSpacingOptimization calculations costs =
     (let currentSpacing = sprinkler_spacing calculations;
          newSpacing = 8;
          reductionFactor = (currentSpacing / newSpacing) ^ 2;
          sprinklerSavings =
            (case find (\<lambda>item. str_includes (item_description item) ''Sprinklers'') (items costs) of
               None \<Rightarrow> 0
             | Some item \<Rightarrow> if truthy (item_total item) then item_total item else 0)
      in Math_round (sprinklerSavings * (1 - reductionFactor)))"

definition generateOptimizationSuggestions ::
  "(number \<Rightarrow> string) \<Rightarrow> ASRSConfiguration \<Rightarrow> DesignCalculation \<Rightarrow> CostBreakdown \<Rightarrow>
   OptimizationSuggestion list" where
  "generateOptimizationSuggestions toString config calculations costs =
     (let suggestions =
        (if sprinkler_spacing calculations < 8 \<and> container_type config \<noteq> ''Open-Top''
         then [\<lparr> o_type = ''spacing_optimization'',
                 o_description = ''Increase sprinkler spacing from '' @
                   toString (sprinkler_spacing calculations) @ ''ft to 8ft'',
                 estimated_savings = calculateSpacingOptimization calculations costs,
                 feasibility = ''high'',
                 requirements_impact =
                   ''No impact on FM Global compliance for closed-top containers'',
                 new_configuration = Some (config\<lparr>rack_spacing_ft := 8\<rparr>) \<rparr>]
         else []) @
        (if system_type config = ''dry'' \<and> ceiling_height_ft config < 25
         then [\<lparr> o_type = ''system_type'',
                 o_description = ''Consider wet system if freezing conditions can be managed'',
                 estimated_savings = Math_round (cb_total costs * 0.15),
                 feasibility = ''medium'',
                 requirements_impact = ''Faster response time and simplified maintenance'',
                 new_configuration = Some (config\<lparr>system_type := ''wet''\<rparr>) \<rparr>]
         else []) @
        (if container_type config = ''Open-Top'' \<and>
            list_all (\<lambda>c. \<not> str_includes c ''Plastic'') (commodity_type config)
         then [\<lparr> o_type = ''container_modification'',
                 o_description =
                   ''Switch to closed-top containers to reduce sprinkler requirements'',
                 estimated_savings = Math_round (cb_total costs * 0.25),
                 feasibility = ''low'',
                 requirements_impact =
                   ''Operational change required, but significant fire protection reduction'',
                 new_configuration = Some (config\<lparr>container_type := ''Closed-Top''\<rparr>) \<rparr>]
         else [])
      in array_sort (\<lambda>a b. estimated_savings b - estimated_savings a) suggestions)"

section \<open>Multi-vector search and the chat handler\<close>

text \<open>
  The embedding service, the datastore and the completion service are outside the
  agent, and what they answer is a parameter. An \<^verbatim>\<open>await\<close> on the embedding or the
  completion service either resolves with a value or rejects with an exception, so
  these calls are modelled by their settled promises. The datastore client that
  \<^verbatim>\<open>createClient\<close> builds does not reject: every query resolves with the pair
  \<^verbatim>\<open>{ data, error }\<close>, and a request that fails (a refused query, a network failure)
  is reported in \<^verbatim>\<open>error\<close> with \<^verbatim>\<open>data\<close> null. So a datastore query is modelled by
  that pair.
\<close>

datatype 'a promise = Resolved 'a | Rejected error

text \<open>\<^verbatim>\<open>await p\<close> followed by the rest of an async function.\<close>

definition await :: "'a promise \<Rightarrow> ('a \<Rightarrow> 'b promise) \<Rightarrow> 'b promise" where
  "await p rest = (case p of Rejected e \<Rightarrow> Rejected e | Resolved x \<Rightarrow> rest x)"

text \<open>
  \<^verbatim>\<open>Promise.all\<close> of three promises rejects as soon as one of them rejects. Which
  rejection wins when several reject depends on timing; the model takes the first in
  the order of the array.
\<close>

definition Promise_all3 ::
  "'a promise \<Rightarrow> 'b promise \<Rightarrow> 'c promise \<Rightarrow> ('a \<times> 'b \<times> 'c) promise" where
  "Promise_all3 p q r =
     (case p of
        Rejected e \<Rightarrow> Rejected e
      | Resolved x \<Rightarrow>
          (case q of
             Rejected e \<Rightarrow> Rejected e
           | Resolved y \<Rightarrow>
               (case r of Rejected e \<Rightarrow> Rejected e | Resolved z \<Rightarrow> Resolved (x, y, z))))"

record 'row PostgrestResponse =
  pg_data :: "'row list option"
  pg_error :: "string option"

text \<open>The columns that the agent reads from a row of each collection.\<close>

record FigureRow =
  fr_id :: string
  fr_figure_number :: number
  fr_title :: string
  fr_normalized_summary :: string
  fr_figure_type :: string
  fr_asrs_type :: string
  fr_container_type :: string
  fr_max_depth_ft :: "number option"
  fr_max_spacing_ft :: "number option"
  fr_machine_readable_claims :: "string option"
  fr_page_number :: number

record VectorRow =
  vr_table_id :: string
  vr_content_text :: string

record TableRow =
  tr_id :: string
  tr_table_number :: number
  tr_table_id :: string
  tr_title :: string
  tr_asrs_type :: string
  tr_protection_scheme :: string
  tr_design_parameters :: "string option"
  tr_sprinkler_specifications :: "string option"
  tr_special_conditions :: "string option"
  tr_ceiling_height_min_ft :: "number option"

text \<open>
  A row of the text collection is passed on as it is. The merge sorts on its
  \<^verbatim>\<open>similarity\<close>, which the model takes to be a number.
\<close>

record TextRow =
  raw_text :: "string option"
  x_similarity :: number

record FigureResult =
  f_id :: string
  figure_number :: number
  f_title :: string
  normalized_summary :: string
  figure_type :: string
  f_asrs_type :: string
  f_container_type :: string
  max_depth_ft :: "number option"
  max_spacing_ft :: "number option"
  machine_readable_claims :: json
  page_number :: number
  f_similarity :: number
  f_applicable_conditions :: "string list"

text \<open>\<^verbatim>\<open>Partial<ASRSConfiguration>\<close>: every field may be absent.\<close>

record PartialConfiguration =
  pc_asrs_type :: "string option"
  pc_container_type :: "string option"
  pc_rack_depth_ft :: "number option"
  pc_rack_spacing_ft :: "number option"
  pc_ceiling_height_ft :: "number option"
  pc_aisle_width_ft :: "number option"
  pc_commodity_type :: "string list option"
  pc_storage_height_ft :: "number option"
  pc_system_type :: "string option"
  pc_building_type :: "string option"
  pc_sprinkler_coverage :: "string option"
  pc_expected_throughput :: "string option"

text \<open>An element of \<^verbatim>\<open>allSources\<close>: a result tagged with its \<^verbatim>\<open>source_type\<close>.\<close>

datatype Source = FigureSource FigureResult | TableSource TableResult | TextSource TextRow

fun source_type :: "Source \<Rightarrow> string" where
  "source_type (FigureSource f) = ''figure''"
| "source_type (TableSource t) = ''table''"
| "source_type (TextSource r) = ''text''"

fun similarity :: "Source \<Rightarrow> number" where
  "similarity (FigureSource f) = f_similarity f"
| "similarity (TableSource t) = t_similarity t"
| "similarity (TextSource r) = x_similarity r"

record SearchResults =
  sources :: "Source list"
  figures_referenced :: "number list"
  tables_referenced :: "number list"

record ChatMessage =
  role :: string
  content :: string
  timestamp :: number
  msg_sources :: "Source list option"
  msg_figures_referenced :: "number list option"
  msg_tables_referenced :: "number list option"

text \<open>The object returned by \<^verbatim>\<open>analyzeQuery\<close>.\<close>

record QueryAnalysis =
  intent :: string
  extractedConfig :: "PartialConfiguration option"
  entities :: "string list"

text \<open>
  What the collaborators answer during one chat request: the settled
  \<^verbatim>\<open>analyzeQuery\<close> (a completion call and the decoding of its JSON), the embedding
  of the query, the reply to each datastore query (the table metadata query is made
  with the table ids found by the vector query), the content of the completion that
  \<^verbatim>\<open>generateChatResponse\<close> asks for, and the clock.
\<close>

record Collaborators =
  analyzed :: "QueryAnalysis promise"
  embedded :: "number list promise"
  figure_query :: "FigureRow PostgrestResponse"
  vector_query :: "VectorRow PostgrestResponse"
  table_query :: "string list \<Rightarrow> TableRow PostgrestResponse"
  text_query :: "TextRow PostgrestResponse"
  completed :: "string option promise"
  now :: number

text \<open>
  \<^verbatim>\<open>JSON.parse\<close> itself is a parameter of the functions below: it returns the value
  or throws on text that is not JSON. A nullable column is an option; a nullable
  number in a condition is true when it is present and not zero.
\<close>

definition parseJSON :: "(string \<Rightarrow> error + json) \<Rightarrow> string option \<Rightarrow> json" where
  "parseJSON JSON_parse jsonString =
     (case jsonString of
        None \<Rightarrow> JNull
      | Some s \<Rightarrow>
          if s = [] then JNull
          else (case JSON_parse s of Inl e \<Rightarrow> JNull | Inr v \<Rightarrow> v))"

text \<open>The signs \<^verbatim>\<open>U+2264\<close> and \<^verbatim>\<open>U+2265\<close> of the condition texts, in UTF-8.\<close>

definition le_sign :: string where
  "le_sign = [char_of (226 :: nat), char_of (137 :: nat), char_of (164 :: nat)]"

definition ge_sign :: string where
  "ge_sign = [char_of (226 :: nat), char_of (137 :: nat), char_of (165 :: nat)]"

definition extractApplicableConditions ::
  "(number \<Rightarrow> string) \<Rightarrow> FigureRow \<Rightarrow> PartialConfiguration option \<Rightarrow> string list" where
  "extractApplicableConditions toString row config =
     (let rack_depth = (case config of None \<Rightarrow> None | Some c \<Rightarrow> pc_rack_depth_ft c);
          rack_spacing = (case config of None \<Rightarrow> None | Some c \<Rightarrow> pc_rack_spacing_ft c)
      in
        (case (fr_max_depth_ft row, rack_depth) of
           (Some m, Some d) \<Rightarrow>
             if truthy m \<and> truthy d \<and> d \<le> m
             then [''Rack depth '' @ le_sign @ '' '' @ toString m @ ''ft''] else []
         | _ \<Rightarrow> []) @
        (case (fr_max_spacing_ft row, rack_spacing) of
           (Some m, Some d) \<Rightarrow>
             if truthy m \<and> truthy d \<and> d \<le> m
             then [''Spacing '' @ le_sign @ '' '' @ toString m @ ''ft''] else []
         | _ \<Rightarrow> []))"

definition extractTableConditions ::
  "(number \<Rightarrow> string) \<Rightarrow> TableRow \<Rightarrow> PartialConfiguration option \<Rightarrow> string list" where
  "extractTableConditions toString row config =
     (let ceiling_height = (case config of None \<Rightarrow> None | Some c \<Rightarrow> pc_ceiling_height_ft c)
      in
        (case (tr_ceiling_height_min_ft row, ceiling_height) of
           (Some m, Some h) \<Rightarrow>
             if truthy m \<and> truthy h \<and> h \<ge> m
             then [''Ceiling height '' @ ge_sign @ '' '' @ toString m @ ''ft''] else []
         | _ \<Rightarrow> []) @
        (if tr_protection_scheme row \<noteq> []
         then [''Protection: '' @ tr_protection_scheme row] else []))"

definition searchFigureVectors ::
  "(string \<Rightarrow> error + json) \<Rightarrow> (number \<Rightarrow> string) \<Rightarrow>
   FigureRow PostgrestResponse \<Rightarrow> PartialConfiguration option \<Rightarrow>
   FigureResult list promise" where
  "searchFigureVectors JSON_parse toString query config =
     await (Resolved query) (\<lambda>response.
       if pg_error response \<noteq> None then Resolved []
       else Resolved
         (case pg_data response of
            None \<Rightarrow> []
          | Some rows \<Rightarrow>
              map (\<lambda>row.
                \<lparr> f_id = fr_id row,
                  figure_number = fr_figure_number row,
                  f_title = fr_title row,
                  normalized_summary = fr_normalized_summary row,
                  figure_type = fr_figure_type row,
                  f_asrs_type = fr_asrs_type row,
                  f_container_type = fr_container_type row,
                  max_depth_ft = fr_max_depth_ft row,
                  max_spacing_ft = fr_max_spacing_ft row,
                  machine_readable_claims = parseJSON JSON_parse (fr_machine_readable_claims row),
                  page_number = fr_page_number row,
                  f_similarity = 0.5,
                  f_applicable_conditions = extractApplicableConditions toString row config \<rparr>)
                rows))"

definition searchTableVectors ::
  "(string \<Rightarrow> error + json) \<Rightarrow> (number \<Rightarrow> string) \<Rightarrow>
   VectorRow PostgrestResponse \<Rightarrow>
   (string list \<Rightarrow> TableRow PostgrestResponse) \<Rightarrow> PartialConfiguration option \<Rightarrow>
   TableResult list promise" where
  "searchTableVectors JSON_parse toString query metadata_query config =
     await (Resolved query) (\<lambda>vector_response.
       case (pg_error vector_response, pg_data vector_response) of
         (Some vectorError, _) \<Rightarrow> Resolved []
       | (None, None) \<Rightarrow> Resolved []
       | (None, Some vectorData) \<Rightarrow>
           let tableIds = map vr_table_id vectorData in
           await (Resolved (metadata_query tableIds)) (\<lambda>table_response.
             case (pg_error table_response, pg_data table_response) of
               (Some tableError, _) \<Rightarrow> Resolved []
             | (None, None) \<Rightarrow> Resolved []
             | (None, Some tableData) \<Rightarrow>
                 Resolved (List.map_filter (\<lambda>vectorRow.
                   case find (\<lambda>t. tr_table_id t = vr_table_id vectorRow) tableData of
                     None \<Rightarrow> None
                   | Some tableRow \<Rightarrow> Some
                       \<lparr> t_id = tr_id tableRow,
                         table_number = tr_table_number tableRow,
                         table_id = tr_table_id tableRow,
                         t_title = tr_title tableRow,
                         t_asrs_type = tr_asrs_type tableRow,
                         t_protection_scheme = tr_protection_scheme tableRow,
                         design_parameters =
                           parseJSON JSON_parse (tr_design_parameters tableRow),
                         sprinkler_specifications =
                           parseJSON JSON_parse (tr_sprinkler_specifications tableRow),
                         special_conditions =
                           (let parsed = parseJSON JSON_parse (tr_special_conditions tableRow)
                            in if json_truthy parsed then parsed else JArr []),
                         content_text = vr_content_text vectorRow,
                         t_similarity = 0.5,
                         t_applicable_conditions =
                           extractTableConditions toString tableRow config \<rparr>) vectorData)))"

definition searchTextChunks :: "TextRow PostgrestResponse \<Rightarrow> TextRow list promise" where
  "searchTextChunks query =
     await (Resolved query) (\<lambda>response.
       if pg_error response \<noteq> None then Resolved []
       else Resolved (case pg_data response of None \<Rightarrow> [] | Some rows \<Rightarrow> rows))"

definition searchMultiVector ::
  "(string \<Rightarrow> error + json) \<Rightarrow> (number \<Rightarrow> string) \<Rightarrow> Collaborators \<Rightarrow>
   PartialConfiguration option \<Rightarrow> SearchResults promise" where
  "searchMultiVector JSON_parse toString world config =
     await (embedded world) (\<lambda>queryEmbedding.
     await (Promise_all3
              (searchFigureVectors JSON_parse toString (figure_query world) config)
              (searchTableVectors JSON_parse toString (vector_query world) (table_query world) config)
              (searchTextChunks (text_query world)))
       (\<lambda>(figureResults, tableResults, textResults).
          let allSources = array_sort (\<lambda>a b. similarity a - similarity b)
                (map FigureSource figureResults @
                 map TableSource tableResults @
                 map TextSource textResults)
          in Resolved
               \<lparr> sources = take 10 allSources,
                 figures_referenced = map figure_number figureResults,
                 tables_referenced = map table_number tableResults \<rparr>))"

text \<open>
  \<^verbatim>\<open>generateChatResponse\<close> builds a prompt from the sources and returns the content
  of the completion, or a fixed text when the completion has none.
\<close>

definition generateChatResponse :: "Collaborators \<Rightarrow> string promise" where
  "generateChatResponse world =
     await (completed world) (\<lambda>message_content.
       Resolved
         (case message_content of
            None \<Rightarrow> ''I apologize, but I was unable to generate a response. Please try rephrasing your question.''
          | Some c \<Rightarrow>
              if c = []
              then ''I apologize, but I was unable to generate a response. Please try rephrasing your question.''
              else c))"

text \<open>
  \<^verbatim>\<open>handleChatMessage\<close> wraps its three steps in \<^verbatim>\<open>try\<close>/\<^verbatim>\<open>catch\<close>: a rejection at
  any step (of the query analysis, the embedding or the completion) ends in the
  \<^verbatim>\<open>catch\<close> block, which returns a message without sources.
\<close>

definition handleChatMessage ::
  "(string \<Rightarrow> error + json) \<Rightarrow> (number \<Rightarrow> string) \<Rightarrow> Collaborators \<Rightarrow> ChatMessage" where
  "handleChatMessage JSON_parse toString world =
     (case
        await (analyzed world) (\<lambda>queryAnalysis.
        await (searchMultiVector JSON_parse toString world (extractedConfig queryAnalysis))
          (\<lambda>searchResults.
        await (generateChatResponse world) (\<lambda>response.
          Resolved
            \<lparr> role = ''assistant'',
              content = response,
              timestamp = now world,
              msg_sources = Some (sources searchResults),
              msg_figures_referenced = Some (figures_referenced searchResults),
              msg_tables_referenced = Some (tables_referenced searchResults) \<rparr>)))
      of
        Resolved message \<Rightarrow> message
      | Rejected e \<Rightarrow>
          \<lparr> role = ''assistant'',
            content = ''I apologize, but I encountered an error processing your request. Please try rephrasing your question or contact support if the issue persists.'',
            timestamp = now world,
            msg_sources = None,
            msg_figures_referenced = None,
            msg_tables_referenced = None \<rparr>)"

section \<open>Inputs used by the closed theorems\<close>

text \<open>
  The configuration of the repository's own design test, which the specification
  calls scenario A, and one table that matches it exactly.
\<close>

definition scenario_A :: ASRSConfiguration where
  "scenario_A = \<lparr> asrs_type = ''Shuttle'', container_type = ''Closed-Top'',
     rack_depth_ft = 20, rack_spacing_ft = 4, ceiling_height_ft = 32, aisle_width_ft = 8,
     commodity_type = [''Class II Commodities''], storage_height_ft = 28,
     system_type = ''wet'', building_type = None, sprinkler_coverage = None,
     expected_throughput = None \<rparr>"

definition matching_table :: TableResult where
  "matching_table = \<lparr> t_id = ''t1'', table_number = 25, table_id = ''table_25'',
     t_title = ''Shuttle ASRS ceiling protection'', t_asrs_type = ''Shuttle'',
     t_protection_scheme = ''wet'', design_parameters = JNull,
     sprinkler_specifications = JNull, special_conditions = JArr [], content_text = [],
     t_similarity = 0, t_applicable_conditions = [] \<rparr>"

definition scenario_A_calc :: DesignCalculation where
  "scenario_A_calc = \<lparr> total_sprinklers = 51, sprinkler_spacing = 8,
     protection_scheme = ''Ceiling plus in-rack protection'',
     design_area_sqft = 3264, flow_rate_gpm = 288, pressure_psi = 704 \<rparr>"

definition general_table :: TableResult where
  "general_table = matching_table\<lparr>t_id := ''t0'', table_number := 1, table_id := ''table_1'',
     t_title := ''General requirements'', t_asrs_type := ''both'',
     t_protection_scheme := ''dry''\<rparr>"


definition open_top_mini_load :: ASRSConfiguration where
  "open_top_mini_load = scenario_A\<lparr>asrs_type := ''Mini-Load'', container_type := ''Open-Top'',
     rack_depth_ft := 10\<rparr>"

definition mini_load_dry :: ASRSConfiguration where
  "mini_load_dry = scenario_A\<lparr>asrs_type := ''Mini-Load'', system_type := ''dry'',
     ceiling_height_ft := 24, storage_height_ft := 19\<rparr>"

definition mini_load_calc :: DesignCalculation where
  "mini_load_calc = \<lparr> total_sprinklers = 51, sprinkler_spacing = 7,
     protection_scheme = ''Ceiling plus in-rack protection'', design_area_sqft = 2499,
     flow_rate_gpm = 288, pressure_psi = 704 \<rparr>"

definition scenario_A_equipment :: EquipmentList where
  "scenario_A_equipment =
     \<lparr> sprinklers = [\<lparr> s_type = ''Quick Response K11.2'', s_kfactor = ''11.2'',
          s_quantity = 51, s_unit_cost = 95 \<rparr>],
       piping = [\<lparr> p_size = ''4in Schedule 40'', p_length = 612, p_unit_cost = 12.5 \<rparr>],
       fittings = [\<lparr> fit_type = ''Tees, Elbows, Couplings'', fit_quantity = 11,
          fit_unit_cost = 25 \<rparr>],
       pumps = Some [\<lparr> pump_type = ''Fire Pump System'', pump_gpm = 288, pump_pressure = 704,
          pump_unit_cost = 15000 \<rparr>],
       total_estimated_cost = 27770 \<rparr>"


definition scenario_A_costs :: CostBreakdown where
  "scenario_A_costs = calculateComprehensiveCost (\<lambda>n. []) scenario_A_equipment scenario_A"

text \<open>
  A configuration that \<^verbatim>\<open>validateConfiguration\<close> accepts, with the rack depth
  20.833333333333332, the double nearest to \<open>250 / 12\<close>.
\<close>

definition fractional_depth_config :: ASRSConfiguration where
  "fractional_depth_config = scenario_A\<lparr>rack_depth_ft := 5864062014805333 / 281474976710656,
     storage_height_ft := 27\<rparr>"

text \<open>
  A chat request in which the figure and text lookups find one row each and the
  vector query behind the table lookup fails, and a request in which all three
  lookups fail.
\<close>

definition figure_row_14 :: FigureRow where
  "figure_row_14 = \<lparr> fr_id = ''f14'', fr_figure_number = 14,
     fr_title = ''Shuttle ASRS sprinkler layout'', fr_normalized_summary = ''layout'',
     fr_figure_type = ''layout'', fr_asrs_type = ''Shuttle'', fr_container_type = ''Closed-Top'',
     fr_max_depth_ft = Some 25, fr_max_spacing_ft = None, fr_machine_readable_claims = None,
     fr_page_number = 40 \<rparr>"

definition figure_14 :: FigureResult where
  "figure_14 = \<lparr> f_id = ''f14'', figure_number = 14,
     f_title = ''Shuttle ASRS sprinkler layout'', normalized_summary = ''layout'',
     figure_type = ''layout'', f_asrs_type = ''Shuttle'', f_container_type = ''Closed-Top'',
     max_depth_ft = Some 25, max_spacing_ft = None, machine_readable_claims = JNull,
     page_number = 40, f_similarity = 0.5, f_applicable_conditions = [] \<rparr>"

definition text_row_1 :: TextRow where
  "text_row_1 = \<lparr> raw_text = Some ''Ceiling sprinklers shall be installed'', x_similarity = 0.3 \<rparr>"

definition plain_analysis :: QueryAnalysis where
  "plain_analysis = \<lparr> intent = ''general_question'', extractedConfig = None, entities = [] \<rparr>"

definition world_table_error :: Collaborators where
  "world_table_error =
     \<lparr> analyzed = Resolved plain_analysis,
       embedded = Resolved [0.1, 0.2],
       figure_query = \<lparr> pg_data = Some [figure_row_14], pg_error = None \<rparr>,
       vector_query = \<lparr> pg_data = None, pg_error = Some ''TypeError: fetch failed'' \<rparr>,
       table_query = (\<lambda>ids. \<lparr> pg_data = Some [], pg_error = None \<rparr>),
       text_query = \<lparr> pg_data = Some [text_row_1], pg_error = None \<rparr>,
       completed = Resolved (Some ''Use Figure 14.''),
       now = 0 \<rparr>"

definition world_all_errors :: Collaborators where
  "world_all_errors = world_table_error
     \<lparr> figure_query := \<lparr> pg_data = None, pg_error = Some ''TypeError: fetch failed'' \<rparr>,
       text_query := \<lparr> pg_data = None, pg_error = Some ''TypeError: fetch failed'' \<rparr> \<rparr>"

definition no_json :: "string \<Rightarrow> error + json" where
  "no_json s = Inl (Error ''SyntaxError'')"

definition no_digits :: "number \<Rightarrow> string" where
  "no_digits n = []"

text \<open>The first ten of the merged sources, in ascending order of similarity.\<close>

abbreviation top_sources :: "FigureResult list \<Rightarrow> TableResult list \<Rightarrow> TextRow list \<Rightarrow> Source list" where
  "top_sources figs tabs texts \<equiv>
     take 10 (array_sort (\<lambda>a b. similarity a - similarity b)
       (map FigureSource figs @ map TableSource tabs @ map TextSource texts))"

section \<open>Auxiliary facts\<close>

lemma at0_filter: "at0 (filter P xs) = find P xs"
  by (induction xs) (auto simp: at0_def)

lemma filter_empty_find: "(filter P xs = []) = (find P xs = None)"
  by (induction xs) auto

lemma selectPrimaryDesignTable_find:
  "selectPrimaryDesignTable tables config =
     (case find (\<lambda>t. toLowerCase (t_asrs_type t) = toLowerCase (asrs_type config) \<and>
                      str_includes (t_protection_scheme t) (system_type config)) tables of
        Some t \<Rightarrow> Some t
      | None \<Rightarrow>
          (case find (\<lambda>t. toLowerCase (t_asrs_type t) = toLowerCase (asrs_type config) \<or>
                           t_asrs_type t = ''both'') tables of
             Some t \<Rightarrow> Some t
           | None \<Rightarrow> at0 tables))"
  by (simp add: selectPrimaryDesignTable_def Let_def at0_filter filter_empty_find
      split: option.splits)

lemma selectPrimaryDesignTable_None:
  "(selectPrimaryDesignTable tables config = None) = (tables = [])"
  by (cases tables) (auto simp: selectPrimaryDesignTable_find at0_def split: option.splits)

lemma performDesignCalculations_Inr:
  "performDesignCalculations config tables = Inr calc \<Longrightarrow>
     sprinkler_spacing calc = sprinklerSpacing config \<and>
     total_sprinklers calc =
       fl (sprinklersPerRack config (sprinklerSpacing config) * estimateNumberOfRacks config) \<and>
     flow_rate_gpm calc = calculateFlowRate config (total_sprinklers calc) \<and>
     pressure_psi calc = calculatePressureRequirement config (flow_rate_gpm calc)"
  by (auto simp: performDesignCalculations_def Let_def split: option.splits)

lemma valid_config_bounds:
  "valid (validateConfiguration config) \<Longrightarrow>
     3 \<le> rack_depth_ft config \<and> 5 / 2 \<le> rack_spacing_ft config"
  by (simp add: validateConfiguration_def Let_def split: if_splits)

lemma sprinklerSpacing_cases: "sprinklerSpacing config \<in> {6, 7, 8}"
  by (simp add: sprinklerSpacing_def Let_def)

lemma set_insert_by: "set (insert_by cmp x ys) = insert x (set ys)"
  by (induction ys) auto

lemma set_array_sort: "set (array_sort cmp xs) = set xs"
  by (induction xs) (auto simp: array_sort_def set_insert_by)

lemma length_insert_by: "length (insert_by cmp x ys) = Suc (length ys)"
  by (induction ys) auto

lemma length_array_sort: "length (array_sort cmp xs) = length xs"
  by (induction xs) (auto simp: array_sort_def length_insert_by)

lemma array_sort_Nil: "array_sort cmp [] = []"
  by (simp add: array_sort_def)

lemma sorted_insert_by_desc:
  "sorted_wrt (\<lambda>a b. k a \<ge> k b) ys \<Longrightarrow>
   sorted_wrt (\<lambda>a b. k a \<ge> k b) (insert_by (\<lambda>a b. k b - k a) x ys)"
  by (induction ys) (auto simp: set_insert_by)

lemma sorted_array_sort_desc:
  "sorted_wrt (\<lambda>a b. k a \<ge> k b) (array_sort (\<lambda>a b. k b - k a) xs)"
  by (induction xs) (auto simp: array_sort_def sorted_insert_by_desc)



lemma pow2_powi: "pow2 k = 2 powi k"
  by (simp add: pow2_def power_int_def power_one_over[symmetric] inverse_eq_divide)

lemma pow2_pos: "0 < pow2 k"
  by (simp add: pow2_powi)

lemma pow2_diff: "pow2 (a - b) = pow2 a / pow2 b"
  by (simp add: pow2_powi power_int_diff)

lemma pow2_nat: "pow2 (int n) = 2 ^ n"
  by (simp add: pow2_def)

lemma pow2_ilog2_le:
  assumes "0 < x"
  shows "pow2 (ilog2 x) \<le> x"
proof -
  obtain a b where q: "quotient_of x = (a, b)" by (cases "quotient_of x")
  have b: "0 < b" using quotient_of_denom_pos[OF q] .
  have x: "x = of_int a / of_int b" using quotient_of_div[OF q] .
  have a: "0 < a"
    using assms b unfolding x by (simp add: zero_less_divide_iff)
  let ?c = "bitlen a - bitlen b"
  show ?thesis
  proof (cases "pow2 ?c \<le> x")
    case True
    then show ?thesis by (simp add: ilog2_def q Let_def)
  next
    case False
    have la: "(2::int) ^ nat (bitlen a - 1) \<le> a" using bitlen_bounds[OF a] by simp
    have lb: "b < 2 ^ nat (bitlen b)" using bitlen_bounds[OF b] by simp
    have ga: "1 \<le> bitlen a" using a bitlen_eq_zero_iff[of a] bitlen_nonneg[of a] by linarith
    have gb: "0 \<le> bitlen b" by (rule bitlen_nonneg)
    have "?c - 1 = int (nat (bitlen a - 1)) - int (nat (bitlen b))"
      using ga gb by simp
    then have p: "pow2 (?c - 1) = 2 ^ nat (bitlen a - 1) / 2 ^ nat (bitlen b)"
      by (simp only: pow2_diff pow2_nat)
    have la': "(2::rat) ^ nat (bitlen a - 1) \<le> of_int a"
      using la by (metis of_int_le_iff of_int_numeral of_int_power)
    have lb': "of_int b \<le> (2::rat) ^ nat (bitlen b)"
      using lb by (metis less_imp_le of_int_le_iff of_int_numeral of_int_power)
    have "(2::rat) ^ nat (bitlen a - 1) / 2 ^ nat (bitlen b) \<le> of_int a / of_int b"
      using la' lb' a b by (intro frac_le) simp_all
    then have "pow2 (?c - 1) \<le> x" by (simp only: p x)
    moreover have "ilog2 x = ?c - 1" using False by (simp add: ilog2_def q Let_def)
    ultimately show ?thesis by simp
  qed
qed

lemma round_even_near: "\<bar>of_int (round_even m) - m\<bar> \<le> 1 / 2"
proof -
  have f1: "of_int \<lfloor>m\<rfloor> \<le> m" and f2: "m < of_int \<lfloor>m\<rfloor> + 1"
    by linarith+
  show ?thesis
    using f1 f2 unfolding round_even_def Let_def
    by (simp split: if_splits)
qed

lemma round_even_of_int: "round_even (of_int k) = k"
  by (simp add: round_even_def Let_def)

lemma fl_error: "\<bar>fl x - x\<bar> \<le> \<bar>x\<bar> / 2 ^ 53"
proof (cases "x = 0")
  case True
  then show ?thesis by (simp add: fl_def)
next
  case False
  let ?e = "ilog2 \<bar>x\<bar>"
  let ?u = "pow2 (?e - 52)"
  have u: "0 < ?u" by (rule pow2_pos)
  have "pow2 ?e \<le> \<bar>x\<bar>" using False by (intro pow2_ilog2_le) simp
  moreover have "pow2 ?e = ?u * 2 ^ 52"
  proof -
    have "?u = pow2 ?e / pow2 52" by (rule pow2_diff)
    moreover have "pow2 52 = 2 ^ 52" by (simp add: pow2_def)
    ultimately show ?thesis by simp
  qed
  ultimately have ux: "?u \<le> \<bar>x\<bar> / 2 ^ 52" by (simp add: field_simps)
  have "fl x - x = (of_int (round_even (x / ?u)) - x / ?u) * ?u"
    using False u by (simp add: fl_def Let_def field_simps)
  then have "\<bar>fl x - x\<bar> = \<bar>of_int (round_even (x / ?u)) - x / ?u\<bar> * ?u"
    using u by (simp add: abs_mult)
  also have "\<dots> \<le> 1 / 2 * ?u"
    using round_even_near[of "x / ?u"] u by (intro mult_right_mono) simp_all
  also have "\<dots> \<le> \<bar>x\<bar> / 2 ^ 53"
    using ux by simp
  finally show ?thesis .
qed

lemma fl_eq_0_iff: "fl x = 0 \<longleftrightarrow> x = 0"
proof
  assume "fl x = 0"
  with fl_error[of x] have "\<bar>x\<bar> \<le> \<bar>x\<bar> / 2 ^ 53" by simp
  then have "\<bar>x\<bar> * 2 ^ 53 \<le> \<bar>x\<bar>" by (simp add: field_simps)
  then show "x = 0" by (cases "x = 0") auto
qed (simp add: fl_def)

lemma ilog2_of_int:
  assumes "0 < n"
  shows "ilog2 (of_int n) = bitlen n - 1"
proof -
  have q: "quotient_of (of_int n) = (n, 1)"
    using quotient_of_int[of n] by (simp add: Rat.of_int_def)
  have ga: "1 \<le> bitlen n"
    using assms bitlen_eq_zero_iff[of n] bitlen_nonneg[of n] by linarith
  have b1: "bitlen 1 = 1" by (simp add: bitlen_alt_def)
  have "(2::int) ^ nat (bitlen n - 1) \<le> n" using bitlen_bounds[OF assms] by simp
  then have "(2::rat) ^ nat (bitlen n - 1) \<le> of_int n"
    by (metis of_int_le_iff of_int_numeral of_int_power)
  then have "pow2 (bitlen n - 1) \<le> of_int n"
    using ga by (simp add: pow2_def)
  then show ?thesis by (simp add: ilog2_def q b1 Let_def)
qed

lemma fl_of_int:
  assumes "\<bar>n\<bar> < 2 ^ 53"
  shows "fl (of_int n) = of_int n"
proof (cases "n = 0")
  case True
  then show ?thesis by (simp add: fl_def)
next
  case False
  let ?m = "\<bar>n\<bar>"
  have m: "0 < ?m" using False by simp
  have e: "ilog2 \<bar>of_int n\<bar> = bitlen ?m - 1"
    using ilog2_of_int[OF m] by simp
  have "(2::int) ^ nat (bitlen ?m - 1) \<le> ?m" using bitlen_bounds[OF m] by simp
  with assms have "(2::int) ^ nat (bitlen ?m - 1) < 2 ^ 53" by linarith
  then have "nat (bitlen ?m - 1) < 53"
    by (rule power_less_imp_less_exp[rotated]) simp
  then have le: "bitlen ?m - 1 \<le> 52" by simp
  define j where "j = nat (52 - (bitlen ?m - 1))"
  have u: "pow2 (ilog2 \<bar>of_int n\<bar> - 52) = 1 / 2 ^ j"
    using le unfolding e by (auto simp: pow2_def j_def)
  have "of_int n / (1 / 2 ^ j) = (of_int (n * 2 ^ j) :: rat)" by simp
  then have r: "round_even (of_int n / (1 / 2 ^ j)) = n * 2 ^ j"
    by (simp only: round_even_of_int)
  have "fl (of_int n) = of_int (round_even (of_int n / (1 / 2 ^ j))) * (1 / 2 ^ j)"
    using False by (simp only: fl_def Let_def u) simp
  also have "\<dots> = of_int n"
    unfolding r by simp
  finally show ?thesis .
qed


lemma searchFigureVectors_error:
  "pg_error r \<noteq> None \<Longrightarrow> searchFigureVectors JSON_parse toString r cfg = Resolved []"
  by (simp add: searchFigureVectors_def await_def)

lemma searchFigureVectors_resolved:
  "\<exists>figs. searchFigureVectors JSON_parse toString r cfg = Resolved figs"
  by (simp add: searchFigureVectors_def await_def)

lemma searchTextChunks_error:
  "pg_error r \<noteq> None \<Longrightarrow> searchTextChunks r = Resolved []"
  by (simp add: searchTextChunks_def await_def)

lemma searchTextChunks_resolved:
  "\<exists>texts. searchTextChunks r = Resolved texts"
  by (simp add: searchTextChunks_def await_def)

lemma searchTableVectors_vector_error:
  "pg_error vr \<noteq> None \<or> pg_data vr = None \<Longrightarrow>
     searchTableVectors JSON_parse toString vr tq cfg = Resolved []"
  by (auto simp: searchTableVectors_def await_def split: option.splits)

lemma searchTableVectors_metadata_error:
  "pg_data vr = Some vd \<Longrightarrow>
   pg_error (tq (map vr_table_id vd)) \<noteq> None \<or> pg_data (tq (map vr_table_id vd)) = None \<Longrightarrow>
     searchTableVectors JSON_parse toString vr tq cfg = Resolved []"
  by (auto simp: searchTableVectors_def await_def Let_def split: option.splits)

lemma searchTableVectors_resolved:
  "\<exists>tabs. searchTableVectors JSON_parse toString vr tq cfg = Resolved tabs"
  by (auto simp: searchTableVectors_def await_def Let_def split: option.splits)

lemma searchMultiVector_merge:
  "embedded w = Resolved emb \<Longrightarrow>
   searchFigureVectors JSON_parse toString (figure_query w) cfg = Resolved figs \<Longrightarrow>
   searchTableVectors JSON_parse toString (vector_query w) (table_query w) cfg = Resolved tabs \<Longrightarrow>
   searchTextChunks (text_query w) = Resolved texts \<Longrightarrow>
   searchMultiVector JSON_parse toString w cfg = Resolved
     \<lparr> sources = top_sources figs tabs texts,
       figures_referenced = map figure_number figs,
       tables_referenced = map table_number tabs \<rparr>"
  by (simp add: searchMultiVector_def await_def Promise_all3_def Let_def)

lemma top_sources_all:
  "length figs + length tabs + length texts \<le> 10 \<Longrightarrow>
     set (top_sources figs tabs texts) =
       FigureSource ` set figs \<union> TableSource ` set tabs \<union> TextSource ` set texts"
  by (simp add: length_array_sort set_array_sort Un_assoc)

lemma handleChatMessage_resolved:
  "analyzed w = Resolved qa \<Longrightarrow>
   searchMultiVector JSON_parse toString w (extractedConfig qa) = Resolved r \<Longrightarrow>
   completed w = Resolved c \<Longrightarrow>
     msg_sources (handleChatMessage JSON_parse toString w) = Some (sources r) \<and>
     msg_figures_referenced (handleChatMessage JSON_parse toString w) = Some (figures_referenced r) \<and>
     msg_tables_referenced (handleChatMessage JSON_parse toString w) = Some (tables_referenced r)"
  by (simp add: handleChatMessage_def await_def generateChatResponse_def)

lemma fl_error_nonneg:
  assumes "0 \<le> x"
  shows "x - x / 2 ^ 53 \<le> fl x \<and> fl x \<le> x + x / 2 ^ 53"
proof -
  have "\<bar>fl x - x\<bar> \<le> x / 2 ^ 53"
    using fl_error[of x] assms by (simp only: abs_of_nonneg)
  then show ?thesis by (simp only: abs_le_iff) linarith
qed

lemma small_part: "0 \<le> x \<Longrightarrow> x / 2 ^ 53 \<le> x / (2::rat)"
  by (simp add: field_simps)

lemma fl_nonneg: "0 \<le> x \<Longrightarrow> 0 \<le> fl x"
  using fl_error_nonneg[of x] small_part[of x] by linarith

lemma fl_le_double: "0 \<le> x \<Longrightarrow> fl x \<le> 2 * x"
  using fl_error_nonneg[of x] small_part[of x] by linarith

lemma fl_ge_half: "0 \<le> x \<Longrightarrow> x / 2 \<le> fl x"
  using fl_error_nonneg[of x] small_part[of x] by linarith

lemma mult_bounds:
  "0 \<le> a \<Longrightarrow> a \<le> m \<Longrightarrow> 0 \<le> b \<Longrightarrow> b \<le> n \<Longrightarrow> 0 \<le> a * b \<and> a * b \<le> m * (n::int)"
  by (simp add: mult_mono)



section \<open>The claims\<close>

subsection \<open>C1: end-to-end scenario A\<close>

text \<open>
  Claim C1, as the code has it. For scenario A with one matching table the design
  calculation yields sprinkler spacing 8 ft, 3 sprinklers per rack, 17 estimated racks
  and 51 sprinklers in total. The ceiling height is 32 ft, which is above 30 ft, so
  the 1.2 multiplier is applied: the flow rate is \<open>ceil (20 * 1.2 * min 51 12) = 288\<close>
  GPM, not 240, and the pressure is
  \<open>ceil (max 15 ((288 / 11.2)\<^sup>2) + 32 * 0.433 + 288 * 0.1) = 704\<close> psi, not 497. The
  pressure is above 175 psi, so the compliance check asks for pressure reducing valves.
\<close>

theorem scenario_A_design:
  "sprinklerSpacing scenario_A = 8 \<and>
   sprinklersPerRack scenario_A 8 = 3 \<and>
   estimateNumberOfRacks scenario_A = 17 \<and>
   calculateFlowRate scenario_A 51 = 288 \<and>
   calculatePressureRequirement scenario_A 288 = 704 \<and>
   performDesignCalculations scenario_A [matching_table] = Inr scenario_A_calc \<and>
   total_sprinklers scenario_A_calc = 51 \<and>
   sprinkler_spacing scenario_A_calc = 8 \<and>
   flow_rate_gpm scenario_A_calc = 288 \<and>
   pressure_psi scenario_A_calc = 704 \<and>
   required_modifications (validateDesignCompliance scenario_A scenario_A_calc) =
     [''System pressure exceeds 175 PSI - pressure reducing valves required'']"
  by code_simp

text \<open>
  Claim C1 as the specification states it fails: on scenario A the calculation
  succeeds, the ceiling is above 30 ft, and the flow rate is not 240 GPM nor the
  pressure 497 psi.
\<close>

theorem scenario_A_not_240_gpm:
  "\<not> isl (performDesignCalculations scenario_A [matching_table]) \<and>
   ceiling_height_ft scenario_A > 30 \<and>
   flow_rate_gpm (projr (performDesignCalculations scenario_A [matching_table])) \<noteq> 240 \<and>
   pressure_psi (projr (performDesignCalculations scenario_A [matching_table])) \<noteq> 497"
  by code_simp

subsection \<open>C2: the clearance check of \<^verbatim>\<open>validateConfiguration\<close>\<close>




subsection \<open>C3: the rule chain of the sprinkler spacing\<close>

text \<open>
  Claim C3. Whenever the design calculation returns, its sprinkler spacing starts at
  8 ft, becomes 6 ft when the container type is Open-Top and the rack depth is above
  6 ft, and is then replaced by the minimum of itself and 7 ft when the ASRS type is
  Mini-Load. So the spacing is at most 8; Open-Top with depth above 6 gives at most 6;
  Mini-Load gives at most 7; and Open-Top, depth 10, Mini-Load gives 6, not 7.
\<close>

theorem sprinkler_spacing_rule_chain:
  "performDesignCalculations config tables = Inr calc \<Longrightarrow>
     sprinkler_spacing calc =
       (let s = (if container_type config = ''Open-Top'' \<and> rack_depth_ft config > 6
                 then 6 else 8)
        in if asrs_type config = ''Mini-Load'' then min s 7 else s) \<and>
     sprinkler_spacing calc \<le> 8 \<and>
     (container_type config = ''Open-Top'' \<and> rack_depth_ft config > 6 \<longrightarrow>
        sprinkler_spacing calc \<le> 6) \<and>
     (asrs_type config = ''Mini-Load'' \<longrightarrow> sprinkler_spacing calc \<le> 7) \<and>
     (container_type config = ''Open-Top'' \<and> rack_depth_ft config = 10 \<and>
      asrs_type config = ''Mini-Load'' \<longrightarrow> sprinkler_spacing calc = 6)"
  by (drule performDesignCalculations_Inr) (simp add: sprinklerSpacing_def Let_def)

theorem sprinkler_spacing_rule_chain_witness:
  "performDesignCalculations open_top_mini_load [matching_table] =
     Inr \<lparr> total_sprinklers = 68, sprinkler_spacing = 6,
           protection_scheme = ''Ceiling plus in-rack protection'',
           design_area_sqft = 2448, flow_rate_gpm = 288, pressure_psi = 704 \<rparr> \<and>
   container_type open_top_mini_load = ''Open-Top'' \<and>
   rack_depth_ft open_top_mini_load = 10 \<and>
   asrs_type open_top_mini_load = ''Mini-Load'' \<and>
   sprinkler_spacing \<lparr> total_sprinklers = 68, sprinkler_spacing = 6,
           protection_scheme = ''Ceiling plus in-rack protection'',
           design_area_sqft = 2448, flow_rate_gpm = 288, pressure_psi = 704 \<rparr> = 6"
proof -
  have run: "performDesignCalculations open_top_mini_load [matching_table] =
     Inr \<lparr> total_sprinklers = 68, sprinkler_spacing = 6,
           protection_scheme = ''Ceiling plus in-rack protection'',
           design_area_sqft = 2448, flow_rate_gpm = 288, pressure_psi = 704 \<rparr>"
    by code_simp
  have cfg: "container_type open_top_mini_load = ''Open-Top'' \<and>
     rack_depth_ft open_top_mini_load = 10 \<and> asrs_type open_top_mini_load = ''Mini-Load''"
    by code_simp
  from sprinkler_spacing_rule_chain[OF run] cfg run show ?thesis by blast
qed

subsection \<open>C4: the sprinkler count\<close>

text \<open>
  Claim C4, as the code has it. For every configuration that
  \<^verbatim>\<open>validateConfiguration\<close> accepts, with rack depth and rack spacing of at most
  \<open>2\<^sup>5\<^sup>0\<^sup>0\<close> ft so that nothing overflows, whenever the design calculation returns,
  \<open>total_sprinklers\<close> is
  \<open>ceil (rack_depth_ft / spacing) * ceil (rack_spacing_ft / spacing)\<close> multiplied by the
  estimated rack count \<open>ceil (10000 / (rack_depth_ft * 30))\<close>, where every quotient
  and every product is the double nearest to the exact value: in particular
  \<open>rack_depth_ft * 30\<close> is rounded before 10000 is divided by it. No divisor is
  zero. Up to \<open>2\<^sup>2\<^sup>0\<close> ft the products of the three whole numbers are exact.
\<close>

theorem total_sprinklers_formula:
  "valid (validateConfiguration config) \<Longrightarrow>
   rack_depth_ft config \<le> 2 ^ 500 \<and> rack_spacing_ft config \<le> 2 ^ 500 \<Longrightarrow>
   performDesignCalculations config tables = Inr calc \<Longrightarrow>
     sprinkler_spacing calc \<noteq> 0 \<and> fl (rack_depth_ft config * 30) \<noteq> 0 \<and>
     estimateNumberOfRacks config =
       of_int \<lceil>fl (10000 / fl (rack_depth_ft config * 30))\<rceil> \<and>
     total_sprinklers calc =
       fl (fl (of_int \<lceil>fl (rack_depth_ft config / sprinkler_spacing calc)\<rceil> *
               of_int \<lceil>fl (rack_spacing_ft config / sprinkler_spacing calc)\<rceil>) *
           of_int \<lceil>fl (10000 / fl (rack_depth_ft config * 30))\<rceil>) \<and>
     (rack_depth_ft config \<le> 2 ^ 20 \<and> rack_spacing_ft config \<le> 2 ^ 20 \<longrightarrow>
        total_sprinklers calc =
          of_int (\<lceil>fl (rack_depth_ft config / sprinkler_spacing calc)\<rceil> *
                  \<lceil>fl (rack_spacing_ft config / sprinkler_spacing calc)\<rceil> *
                  \<lceil>fl (10000 / fl (rack_depth_ft config * 30))\<rceil>))"
proof -
  assume v: "valid (validateConfiguration config)"
    and r: "performDesignCalculations config tables = Inr calc"
  let ?d = "rack_depth_ft config" and ?r = "rack_spacing_ft config"
  let ?s = "sprinkler_spacing calc"
  let ?A = "\<lceil>fl (?d / ?s)\<rceil>" and ?B = "\<lceil>fl (?r / ?s)\<rceil>"
  let ?R = "\<lceil>fl (10000 / fl (?d * 30))\<rceil>"
  from valid_config_bounds[OF v] have d3: "3 \<le> ?d" and r2: "5 / 2 \<le> ?r" by simp_all
  from d3 have m0: "fl (?d * 30) \<noteq> 0" by (simp add: fl_eq_0_iff)
  from performDesignCalculations_Inr[OF r]
  have s: "?s = sprinklerSpacing config"
    and t: "total_sprinklers calc =
       fl (sprinklersPerRack config (sprinklerSpacing config) * estimateNumberOfRacks config)"
    by simp_all
  have sc: "?s = 6 \<or> ?s = 7 \<or> ?s = 8"
    using sprinklerSpacing_cases[of config] s by auto
  then have nz: "?s \<noteq> 0" by auto
  have e: "estimateNumberOfRacks config = of_int ?R"
    by (simp add: estimateNumberOfRacks_def Math_ceil_def Let_def)
  have f: "total_sprinklers calc = fl (fl (of_int ?A * of_int ?B) * of_int ?R)"
    using t s by (simp add: sprinklersPerRack_def estimateNumberOfRacks_def Math_ceil_def Let_def)
  have small: "total_sprinklers calc = of_int (?A * ?B * ?R)"
    if b: "?d \<le> 2 ^ 20 \<and> ?r \<le> 2 ^ 20"
  proof -
    define A B R where "A = ?A" and "B = ?B" and "R = ?R"
    have q1: "0 \<le> ?d / ?s \<and> ?d / ?s \<le> 2 ^ 18"
      using sc d3 b by auto
    have q2: "0 \<le> ?r / ?s \<and> ?r / ?s \<le> 2 ^ 18"
      using sc r2 b by auto
    have A: "0 \<le> A \<and> A \<le> 2 ^ 19"
      using fl_nonneg[of "?d / ?s"] fl_le_double[of "?d / ?s"] q1
      by (simp add: A_def ceiling_le_iff)
    have B: "0 \<le> B \<and> B \<le> 2 ^ 19"
      using fl_nonneg[of "?r / ?s"] fl_le_double[of "?r / ?s"] q2
      by (simp add: B_def ceiling_le_iff)
    have m: "45 \<le> fl (?d * 30)"
      using fl_ge_half[of "?d * 30"] d3 by simp
    then have q3: "0 \<le> 10000 / fl (?d * 30) \<and> 10000 / fl (?d * 30) \<le> 223"
      by (simp add: field_simps)
    have R: "0 \<le> R \<and> R \<le> 446"
      using fl_nonneg[of "10000 / fl (?d * 30)"] fl_le_double[of "10000 / fl (?d * 30)"] q3
      by (simp add: R_def ceiling_le_iff)
    have AB: "0 \<le> A * B \<and> A * B \<le> 2 ^ 19 * 2 ^ 19"
      using A B by (intro mult_bounds) simp_all
    then have "\<bar>A * B\<bar> < 2 ^ 53" by simp
    from fl_of_int[OF this]
    have 1: "fl (of_int A * of_int B) = of_int (A * B)" by simp
    have "0 \<le> A * B * R \<and> A * B * R \<le> (2 ^ 19 * 2 ^ 19) * 446"
      using AB R by (intro mult_bounds) simp_all
    then have "\<bar>A * B * R\<bar> < 2 ^ 53" by simp
    from fl_of_int[OF this]
    have 2: "fl (of_int (A * B) * of_int R) = of_int (A * B * R)" by simp
    have "total_sprinklers calc = fl (fl (of_int A * of_int B) * of_int R)"
      using f by (simp only: A_def B_def R_def)
    then have "total_sprinklers calc = of_int (A * B * R)"
      by (simp only: 1 2)
    then show ?thesis by (simp only: A_def B_def R_def)
  qed
  from nz m0 e f small show ?thesis by blast
qed

theorem total_sprinklers_formula_witness:
  "valid (validateConfiguration fractional_depth_config) \<and>
   rack_depth_ft fractional_depth_config \<le> 2 ^ 20 \<and>
   rack_spacing_ft fractional_depth_config \<le> 2 ^ 20 \<and>
   performDesignCalculations fractional_depth_config [matching_table] =
     Inr (scenario_A_calc\<lparr>total_sprinklers := 48, design_area_sqft := 3072\<rparr>) \<and>
   fl (rack_depth_ft fractional_depth_config * 30) = 625 \<and>
   estimateNumberOfRacks fractional_depth_config = 16 \<and>
   total_sprinklers (scenario_A_calc\<lparr>total_sprinklers := 48, design_area_sqft := 3072\<rparr>) =
     of_int (\<lceil>fl (rack_depth_ft fractional_depth_config / 8)\<rceil> *
             \<lceil>fl (rack_spacing_ft fractional_depth_config / 8)\<rceil> *
             \<lceil>fl (10000 / fl (rack_depth_ft fractional_depth_config * 30))\<rceil>)"
proof -
  have v: "valid (validateConfiguration fractional_depth_config)"
    by code_simp
  have b: "rack_depth_ft fractional_depth_config \<le> 2 ^ 20 \<and>
      rack_spacing_ft fractional_depth_config \<le> 2 ^ 20"
    by code_simp
  then have b': "rack_depth_ft fractional_depth_config \<le> 2 ^ 500 \<and>
      rack_spacing_ft fractional_depth_config \<le> 2 ^ 500"
    using power_increasing[of 20 500 "2::rat"] by simp
  have r: "performDesignCalculations fractional_depth_config [matching_table] =
     Inr (scenario_A_calc\<lparr>total_sprinklers := 48, design_area_sqft := 3072\<rparr>)"
    by code_simp
  have m: "fl (rack_depth_ft fractional_depth_config * 30) = 625"
    by code_simp
  have e: "estimateNumberOfRacks fractional_depth_config = 16"
    by code_simp
  have s: "sprinkler_spacing (scenario_A_calc\<lparr>total_sprinklers := 48,
      design_area_sqft := 3072\<rparr>) = 8"
    by code_simp
  note t = total_sprinklers_formula[OF v b' r]
  have c: "total_sprinklers (scenario_A_calc\<lparr>total_sprinklers := 48,
        design_area_sqft := 3072\<rparr>) =
     of_int (\<lceil>fl (rack_depth_ft fractional_depth_config / 8)\<rceil> *
             \<lceil>fl (rack_spacing_ft fractional_depth_config / 8)\<rceil> *
             \<lceil>fl (10000 / fl (rack_depth_ft fractional_depth_config * 30))\<rceil>)"
    using mp[OF conjunct2[OF conjunct2[OF conjunct2[OF conjunct2[OF t]]]] b]
    by (simp only: s)
  show ?thesis
    by (intro conjI v conjunct1[OF b] conjunct2[OF b] r m e c)
qed

text \<open>
  Claim C4 as the specification states it, with exact quotients, fails at the rack
  depth 20.833333333333332. The configuration is valid; \<open>rack_depth_ft * 30\<close> is just
  below 625 and rounds to 625, so the code estimates 16 racks and 48 sprinklers, while
  the ceiling of the exact \<open>10000 / (rack_depth_ft * 30)\<close> is 17 and the formula of
  the claim gives 51.
\<close>

theorem total_sprinklers_counterexample:
  "valid (validateConfiguration fractional_depth_config) \<and>
   \<not> isl (performDesignCalculations fractional_depth_config [matching_table]) \<and>
   total_sprinklers (projr (performDesignCalculations fractional_depth_config [matching_table]))
     = 48 \<and>
   sprinkler_spacing (projr (performDesignCalculations fractional_depth_config [matching_table]))
     = 8 \<and>
   rack_depth_ft fractional_depth_config * 30 < 625 \<and>
   \<lceil>10000 / (rack_depth_ft fractional_depth_config * 30)\<rceil> = 17 \<and>
   of_int (\<lceil>rack_depth_ft fractional_depth_config / 8\<rceil> *
           \<lceil>rack_spacing_ft fractional_depth_config / 8\<rceil> *
           \<lceil>10000 / (rack_depth_ft fractional_depth_config * 30)\<rceil>) = (51 :: rat)"
  by code_simp

subsection \<open>C5: the flow rate\<close>

text \<open>
  Claim C5. Whenever the design calculation returns,
  \<open>flow_rate_gpm = ceil (base * min total_sprinklers 12)\<close>, where the base is 20 GPM,
  overwritten by 25 if a commodity label contains "Class III", then by 30 if one
  contains "Class IV", then by 35 if one contains "Plastic" (the last match wins), and
  multiplied by 1.2 when the ceiling height is above 30 ft.
\<close>

theorem flow_rate_formula:
  "performDesignCalculations config tables = Inr calc \<Longrightarrow>
     flow_rate_gpm calc =
       of_int \<lceil>(if list_ex (\<lambda>c. str_includes c ''Plastic'') (commodity_type config) then 35
                 else if list_ex (\<lambda>c. str_includes c ''Class IV'') (commodity_type config) then 30
                 else if list_ex (\<lambda>c. str_includes c ''Class III'') (commodity_type config) then 25
                 else 20) *
                (if ceiling_height_ft config > 30 then 1.2 else 1) *
                min (total_sprinklers calc) 12\<rceil> \<and>
     flow_rate_gpm calc = calculateFlowRate config (total_sprinklers calc)"
  by (drule performDesignCalculations_Inr)
     (simp add: calculateFlowRate_def Let_def Math_ceil_def)

theorem flow_rate_formula_witness:
  "performDesignCalculations (scenario_A\<lparr>commodity_type := [''Class III'', ''Cartoned Plastic'']\<rparr>)
     [matching_table] =
     Inr (scenario_A_calc\<lparr>flow_rate_gpm := 504, pressure_psi := 2090\<rparr>) \<and>
   flow_rate_gpm (scenario_A_calc\<lparr>flow_rate_gpm := 504, pressure_psi := 2090\<rparr>) =
     of_int \<lceil>35 * 1.2 * min (total_sprinklers
        (scenario_A_calc\<lparr>flow_rate_gpm := 504, pressure_psi := 2090\<rparr>)) 12 :: rat\<rceil>"
proof -
  have r: "performDesignCalculations
       (scenario_A\<lparr>commodity_type := [''Class III'', ''Cartoned Plastic'']\<rparr>) [matching_table] =
     Inr (scenario_A_calc\<lparr>flow_rate_gpm := 504, pressure_psi := 2090\<rparr>)"
    by code_simp
  have c: "list_ex (\<lambda>c. str_includes c ''Plastic'')
       (commodity_type (scenario_A\<lparr>commodity_type := [''Class III'', ''Cartoned Plastic'']\<rparr>)) \<and>
     ceiling_height_ft (scenario_A\<lparr>commodity_type := [''Class III'', ''Cartoned Plastic'']\<rparr>) > 30"
    by code_simp
  from flow_rate_formula[OF r] c r show ?thesis by simp
qed

subsection \<open>C6: the primary table and the missing-table error\<close>

text \<open>
  Claim C6. The design calculation fails exactly when the list of tables is empty,
  and then with the error "No applicable design tables found for configuration". For
  every non-empty list the primary table is the first table in list order that is an
  exact match (the same \<open>asrs_type\<close>, compared as the code does without regard to
  letter case, and a \<open>protection_scheme\<close> that contains the \<open>system_type\<close>); if there
  is none, the first that is a partial match (the same \<open>asrs_type\<close>, or the
  \<open>asrs_type\<close> "both"); if there is none either, the first table of the list.
\<close>

theorem primary_table_selection:
  "((\<exists>e. performDesignCalculations config tables = Inl e) \<longleftrightarrow> tables = []) \<and>
   (tables = [] \<longrightarrow> performDesignCalculations config tables =
      Inl (Error ''No applicable design tables found for configuration'')) \<and>
   (tables \<noteq> [] \<longrightarrow> selectPrimaryDesignTable tables config =
      Some (case find (\<lambda>t. toLowerCase (t_asrs_type t) = toLowerCase (asrs_type config) \<and>
                           str_includes (t_protection_scheme t) (system_type config)) tables of
              Some t \<Rightarrow> t
            | None \<Rightarrow>
                (case find (\<lambda>t. toLowerCase (t_asrs_type t) = toLowerCase (asrs_type config) \<or>
                                 t_asrs_type t = ''both'') tables of
                   Some t \<Rightarrow> t
                 | None \<Rightarrow> hd tables)))"
proof -
  have a: "(\<exists>e. performDesignCalculations config tables = Inl e) \<longleftrightarrow> tables = []"
    using selectPrimaryDesignTable_None[of tables config]
    by (auto simp: performDesignCalculations_def Let_def split: option.splits)
  have b: "tables = [] \<longrightarrow> performDesignCalculations config tables =
      Inl (Error ''No applicable design tables found for configuration'')"
    using selectPrimaryDesignTable_None[of tables config]
    by (auto simp: performDesignCalculations_def Let_def split: option.splits)
  have c: "tables \<noteq> [] \<longrightarrow> selectPrimaryDesignTable tables config =
      Some (case find (\<lambda>t. toLowerCase (t_asrs_type t) = toLowerCase (asrs_type config) \<and>
                           str_includes (t_protection_scheme t) (system_type config)) tables of
              Some t \<Rightarrow> t
            | None \<Rightarrow>
                (case find (\<lambda>t. toLowerCase (t_asrs_type t) = toLowerCase (asrs_type config) \<or>
                                 t_asrs_type t = ''both'') tables of
                   Some t \<Rightarrow> t
                 | None \<Rightarrow> hd tables))"
    by (cases tables) (auto simp: selectPrimaryDesignTable_find at0_def split: option.splits)
  from a b c show ?thesis by blast
qed

theorem primary_table_selection_witness:
  "performDesignCalculations scenario_A [] =
      Inl (Error ''No applicable design tables found for configuration'') \<and>
   [general_table, matching_table] \<noteq> [] \<and>
   selectPrimaryDesignTable [general_table, matching_table] scenario_A = Some matching_table \<and>
   selectPrimaryDesignTable [general_table, matching_table]
      (scenario_A\<lparr>system_type := ''both''\<rparr>) = Some general_table"
proof -
  have e: "([] :: TableResult list) = []" by simp
  have n: "[general_table, matching_table] \<noteq> []" by simp
  have f1: "find (\<lambda>t. toLowerCase (t_asrs_type t) = toLowerCase (asrs_type scenario_A) \<and>
                      str_includes (t_protection_scheme t) (system_type scenario_A))
              [general_table, matching_table] = Some matching_table"
    by code_simp
  have f2: "find (\<lambda>t. toLowerCase (t_asrs_type t) =
                        toLowerCase (asrs_type (scenario_A\<lparr>system_type := ''both''\<rparr>)) \<and>
                      str_includes (t_protection_scheme t)
                        (system_type (scenario_A\<lparr>system_type := ''both''\<rparr>)))
              [general_table, matching_table] = None"
    by code_simp
  have f3: "find (\<lambda>t. toLowerCase (t_asrs_type t) =
                        toLowerCase (asrs_type (scenario_A\<lparr>system_type := ''both''\<rparr>)) \<or>
                      t_asrs_type t = ''both'')
              [general_table, matching_table] = Some general_table"
    by code_simp
  from primary_table_selection[of scenario_A "[]"] e
  have 1: "performDesignCalculations scenario_A [] =
      Inl (Error ''No applicable design tables found for configuration'')"
    by blast
  from primary_table_selection[of scenario_A "[general_table, matching_table]"] n f1
  have 2: "selectPrimaryDesignTable [general_table, matching_table] scenario_A =
      Some matching_table"
    by simp
  from primary_table_selection[of "scenario_A\<lparr>system_type := ''both''\<rparr>"
      "[general_table, matching_table]"] n f2 f3
  have 3: "selectPrimaryDesignTable [general_table, matching_table]
      (scenario_A\<lparr>system_type := ''both''\<rparr>) = Some general_table"
    by simp
  from 1 2 3 n show ?thesis by blast
qed

subsection \<open>C7: failures of the retrieval lookups\<close>

text \<open>
  Claim C7. A lookup fails when the datastore reports an error for its query (for
  the table lookup: for either of its two queries, or a reply without data); the
  datastore client reports every failed request, a network failure included, in this
  way. Each of the three lookups is fault-tolerant on its own: every lookup returns
  a list, the empty list when it fails. So whenever the query has been embedded, the
  merged result is the first ten, by ascending similarity, of the sources of all
  kinds (all of them when there are at most ten), with the figure and table numbers
  of the lookups: a failing lookup leaves the other kinds' sources in the merged
  result and gives an empty reference list for its own kind. If all three lookups
  fail the result is empty, not an error. The chat handler passes the sources and
  reference lists on to its caller; a failing lookup never reaches the caller as an
  exception.
\<close>

theorem retrieval_lookups_fault_tolerant:
  "embedded w = Resolved emb \<Longrightarrow>
   (\<exists>figs tabs texts.
      searchFigureVectors JSON_parse toString (figure_query w) cfg = Resolved figs \<and>
      searchTableVectors JSON_parse toString (vector_query w) (table_query w) cfg =
        Resolved tabs \<and>
      searchTextChunks (text_query w) = Resolved texts \<and>
      (pg_error (figure_query w) \<noteq> None \<longrightarrow> figs = []) \<and>
      (pg_error (vector_query w) \<noteq> None \<or> pg_data (vector_query w) = None \<longrightarrow> tabs = []) \<and>
      (\<forall>vd. pg_data (vector_query w) = Some vd \<and>
          (pg_error (table_query w (map vr_table_id vd)) \<noteq> None \<or>
           pg_data (table_query w (map vr_table_id vd)) = None) \<longrightarrow> tabs = []) \<and>
      (pg_error (text_query w) \<noteq> None \<longrightarrow> texts = []) \<and>
      searchMultiVector JSON_parse toString w cfg = Resolved
        \<lparr> sources = top_sources figs tabs texts,
          figures_referenced = map figure_number figs,
          tables_referenced = map table_number tabs \<rparr> \<and>
      (length figs + length tabs + length texts \<le> 10 \<longrightarrow>
         set (top_sources figs tabs texts) =
           FigureSource ` set figs \<union> TableSource ` set tabs \<union> TextSource ` set texts) \<and>
      (tabs = [] \<longrightarrow>
         searchMultiVector JSON_parse toString w cfg = Resolved
           \<lparr> sources = top_sources figs [] texts,
             figures_referenced = map figure_number figs,
             tables_referenced = [] \<rparr>) \<and>
      (figs = [] \<and> tabs = [] \<and> texts = [] \<longrightarrow>
         searchMultiVector JSON_parse toString w cfg = Resolved
           \<lparr> sources = [], figures_referenced = [], tables_referenced = [] \<rparr>) \<and>
      (analyzed w = Resolved qa \<and> extractedConfig qa = cfg \<and> completed w = Resolved c \<longrightarrow>
         msg_sources (handleChatMessage JSON_parse toString w) =
           Some (top_sources figs tabs texts) \<and>
         msg_figures_referenced (handleChatMessage JSON_parse toString w) =
           Some (map figure_number figs) \<and>
         msg_tables_referenced (handleChatMessage JSON_parse toString w) =
           Some (map table_number tabs)))"
proof -
  assume a: "embedded w = Resolved emb"
  from searchFigureVectors_resolved[of JSON_parse toString "figure_query w" cfg]
  obtain figs where
    figs: "searchFigureVectors JSON_parse toString (figure_query w) cfg = Resolved figs" ..
  from searchTableVectors_resolved[of JSON_parse toString "vector_query w" "table_query w" cfg]
  obtain tabs where
    tabs: "searchTableVectors JSON_parse toString (vector_query w) (table_query w) cfg =
       Resolved tabs" ..
  from searchTextChunks_resolved[of "text_query w"]
  obtain texts where texts: "searchTextChunks (text_query w) = Resolved texts" ..
  have fe: "pg_error (figure_query w) \<noteq> None \<longrightarrow> figs = []"
    using figs searchFigureVectors_error[of "figure_query w" JSON_parse toString cfg] by auto
  have xe: "pg_error (text_query w) \<noteq> None \<longrightarrow> texts = []"
    using texts searchTextChunks_error[of "text_query w"] by auto
  have te1: "pg_error (vector_query w) \<noteq> None \<or> pg_data (vector_query w) = None \<longrightarrow> tabs = []"
    using tabs
      searchTableVectors_vector_error[of "vector_query w" JSON_parse toString "table_query w" cfg]
    by auto
  have te2: "\<forall>vd. pg_data (vector_query w) = Some vd \<and>
          (pg_error (table_query w (map vr_table_id vd)) \<noteq> None \<or>
           pg_data (table_query w (map vr_table_id vd)) = None) \<longrightarrow> tabs = []"
  proof (intro allI impI)
    fix vd
    assume h: "pg_data (vector_query w) = Some vd \<and>
          (pg_error (table_query w (map vr_table_id vd)) \<noteq> None \<or>
           pg_data (table_query w (map vr_table_id vd)) = None)"
    from searchTableVectors_metadata_error[of "vector_query w" vd "table_query w"
        JSON_parse toString cfg] h tabs
    show "tabs = []" by auto
  qed
  have m: "searchMultiVector JSON_parse toString w cfg = Resolved
         \<lparr> sources = top_sources figs tabs texts,
           figures_referenced = map figure_number figs,
           tables_referenced = map table_number tabs \<rparr>"
    using searchMultiVector_merge[OF a figs tabs texts] .
  have ts: "length figs + length tabs + length texts \<le> 10 \<longrightarrow>
      set (top_sources figs tabs texts) =
        FigureSource ` set figs \<union> TableSource ` set tabs \<union> TextSource ` set texts"
    using top_sources_all[of figs tabs texts] by blast
  have t0: "tabs = [] \<longrightarrow>
         searchMultiVector JSON_parse toString w cfg = Resolved
           \<lparr> sources = top_sources figs [] texts,
             figures_referenced = map figure_number figs,
             tables_referenced = [] \<rparr>"
    using m by auto
  have all: "figs = [] \<and> tabs = [] \<and> texts = [] \<longrightarrow>
        searchMultiVector JSON_parse toString w cfg = Resolved
          \<lparr> sources = [], figures_referenced = [], tables_referenced = [] \<rparr>"
    using m by (auto simp: array_sort_Nil)
  have h: "analyzed w = Resolved qa \<and> extractedConfig qa = cfg \<and> completed w = Resolved c \<longrightarrow>
          msg_sources (handleChatMessage JSON_parse toString w) =
            Some (top_sources figs tabs texts) \<and>
          msg_figures_referenced (handleChatMessage JSON_parse toString w) =
            Some (map figure_number figs) \<and>
          msg_tables_referenced (handleChatMessage JSON_parse toString w) =
            Some (map table_number tabs)"
    using m handleChatMessage_resolved[of w qa JSON_parse toString _ c] by auto
  show ?thesis
    by (rule exI[of _ figs], rule exI[of _ tabs], rule exI[of _ texts])
       (intro conjI figs tabs texts fe te1 te2 xe m ts t0 all h)
qed

theorem retrieval_lookups_fault_tolerant_witness:
  "embedded world_table_error = Resolved [0.1, 0.2] \<and>
   pg_error (vector_query world_table_error) \<noteq> None \<and>
   searchTableVectors no_json no_digits (vector_query world_table_error)
     (table_query world_table_error) None = Resolved [] \<and>
   searchMultiVector no_json no_digits world_table_error None = Resolved
     \<lparr> sources = [TextSource text_row_1, FigureSource figure_14],
       figures_referenced = [14],
       tables_referenced = [] \<rparr> \<and>
   msg_sources (handleChatMessage no_json no_digits world_table_error) =
     Some [TextSource text_row_1, FigureSource figure_14] \<and>
   msg_tables_referenced (handleChatMessage no_json no_digits world_table_error) = Some [] \<and>
   embedded world_all_errors = Resolved [0.1, 0.2] \<and>
   searchMultiVector no_json no_digits world_all_errors None = Resolved
     \<lparr> sources = [], figures_referenced = [], tables_referenced = [] \<rparr>"
proof -
  have a: "embedded world_table_error = Resolved [0.1, 0.2]"
    by (simp add: world_table_error_def)
  have a': "embedded world_all_errors = Resolved [0.1, 0.2]"
    by (simp add: world_all_errors_def world_table_error_def)
  have ve: "pg_error (vector_query world_table_error) \<noteq> None"
    by (simp add: world_table_error_def)
  have q: "analyzed world_table_error = Resolved plain_analysis \<and>
     extractedConfig plain_analysis = None \<and>
     completed world_table_error = Resolved (Some ''Use Figure 14.'')"
    by (simp add: world_table_error_def plain_analysis_def)
  have f: "searchFigureVectors no_json no_digits (figure_query world_table_error) None =
      Resolved [figure_14]"
    by code_simp
  have x: "searchTextChunks (text_query world_table_error) = Resolved [text_row_1]"
    by code_simp
  have s: "top_sources [figure_14] [] [text_row_1] =
      [TextSource text_row_1, FigureSource figure_14]"
    by code_simp
  have n: "map figure_number [figure_14] = [14]" by code_simp
  have e': "pg_error (figure_query world_all_errors) \<noteq> None \<and>
      pg_error (vector_query world_all_errors) \<noteq> None \<and>
      pg_error (text_query world_all_errors) \<noteq> None"
    by (simp add: world_all_errors_def world_table_error_def)
  from retrieval_lookups_fault_tolerant[OF a, of no_json no_digits None plain_analysis
      "Some ''Use Figure 14.''"]
  obtain figs tabs texts where
      1: "searchFigureVectors no_json no_digits (figure_query world_table_error) None =
            Resolved figs"
    and 2: "searchTableVectors no_json no_digits (vector_query world_table_error)
            (table_query world_table_error) None = Resolved tabs"
    and 3: "searchTextChunks (text_query world_table_error) = Resolved texts"
    and 4: "pg_error (vector_query world_table_error) \<noteq> None \<or>
            pg_data (vector_query world_table_error) = None \<longrightarrow> tabs = []"
    and 5: "searchMultiVector no_json no_digits world_table_error None = Resolved
         \<lparr> sources = top_sources figs tabs texts,
           figures_referenced = map figure_number figs,
           tables_referenced = map table_number tabs \<rparr>"
    and 6: "analyzed world_table_error = Resolved plain_analysis \<and>
          extractedConfig plain_analysis = None \<and>
          completed world_table_error = Resolved (Some ''Use Figure 14.'') \<longrightarrow>
          msg_sources (handleChatMessage no_json no_digits world_table_error) =
            Some (top_sources figs tabs texts) \<and>
          msg_figures_referenced (handleChatMessage no_json no_digits world_table_error) =
            Some (map figure_number figs) \<and>
          msg_tables_referenced (handleChatMessage no_json no_digits world_table_error) =
            Some (map table_number tabs)"
    by (elim exE conjE) (rule that)
  from 4 ve have tabs: "tabs = []" by blast
  from 1 f have figs: "figs = [figure_14]" by simp
  from 3 x have texts: "texts = [text_row_1]" by simp
  from 6 q have 7: "msg_sources (handleChatMessage no_json no_digits world_table_error) =
            Some (top_sources figs tabs texts) \<and>
          msg_tables_referenced (handleChatMessage no_json no_digits world_table_error) =
            Some (map table_number tabs)"
    by blast
  from retrieval_lookups_fault_tolerant[OF a', of no_json no_digits None plain_analysis
      "Some ''Use Figure 14.''"]
  obtain figs' tabs' texts' where
      "searchFigureVectors no_json no_digits (figure_query world_all_errors) None =
            Resolved figs'"
    and "searchTableVectors no_json no_digits (vector_query world_all_errors)
            (table_query world_all_errors) None = Resolved tabs'"
    and "searchTextChunks (text_query world_all_errors) = Resolved texts'"
    and 8: "pg_error (figure_query world_all_errors) \<noteq> None \<longrightarrow> figs' = []"
    and 9: "pg_error (vector_query world_all_errors) \<noteq> None \<or>
            pg_data (vector_query world_all_errors) = None \<longrightarrow> tabs' = []"
    and 10: "pg_error (text_query world_all_errors) \<noteq> None \<longrightarrow> texts' = []"
    and 11: "figs' = [] \<and> tabs' = [] \<and> texts' = [] \<longrightarrow>
         searchMultiVector no_json no_digits world_all_errors None = Resolved
           \<lparr> sources = [], figures_referenced = [], tables_referenced = [] \<rparr>"
    by (elim exE conjE) (rule that)
  from 8 9 10 11 e' have 12: "searchMultiVector no_json no_digits world_all_errors None =
      Resolved \<lparr> sources = [], figures_referenced = [], tables_referenced = [] \<rparr>"
    by blast
  from a a' ve 2 5 7 12 s n show ?thesis unfolding tabs figs texts by simp
qed

subsection \<open>C8: the order of the optimization suggestions\<close>

text \<open>
  Claim C8. For every configuration, calculation and cost breakdown the list returned
  by \<^verbatim>\<open>generateOptimizationSuggestions\<close> is sorted by descending
  \<open>estimated_savings\<close>, however many of the three rules fire, and it is empty when
  none of them fires.
\<close>

theorem suggestions_sorted_descending:
  "sorted_wrt (\<lambda>a b. estimated_savings a \<ge> estimated_savings b)
     (generateOptimizationSuggestions toString config calculations costs) \<and>
   (\<not> (sprinkler_spacing calculations < 8 \<and> container_type config \<noteq> ''Open-Top'') \<and>
    \<not> (system_type config = ''dry'' \<and> ceiling_height_ft config < 25) \<and>
    \<not> (container_type config = ''Open-Top'' \<and>
        list_all (\<lambda>c. \<not> str_includes c ''Plastic'') (commodity_type config)) \<longrightarrow>
    generateOptimizationSuggestions toString config calculations costs = [])"
proof
  show "sorted_wrt (\<lambda>a b. estimated_savings a \<ge> estimated_savings b)
     (generateOptimizationSuggestions toString config calculations costs)"
    unfolding generateOptimizationSuggestions_def Let_def
    by (rule sorted_array_sort_desc)
next
  show "\<not> (sprinkler_spacing calculations < 8 \<and> container_type config \<noteq> ''Open-Top'') \<and>
    \<not> (system_type config = ''dry'' \<and> ceiling_height_ft config < 25) \<and>
    \<not> (container_type config = ''Open-Top'' \<and>
        list_all (\<lambda>c. \<not> str_includes c ''Plastic'') (commodity_type config)) \<longrightarrow>
    generateOptimizationSuggestions toString config calculations costs = []"
    by (simp add: generateOptimizationSuggestions_def Let_def array_sort_Nil)
qed

theorem suggestions_sorted_descending_witness:
  "sprinkler_spacing scenario_A_calc = 8 \<and>
   container_type scenario_A = ''Closed-Top'' \<and>
   system_type scenario_A = ''wet'' \<and>
   generateOptimizationSuggestions no_digits scenario_A scenario_A_calc scenario_A_costs = [] \<and>
   map estimated_savings
     (generateOptimizationSuggestions no_digits mini_load_dry mini_load_calc scenario_A_costs) =
     [5832, 1136] \<and>
   sorted_wrt (\<lambda>a b. estimated_savings a \<ge> estimated_savings b)
     (generateOptimizationSuggestions no_digits mini_load_dry mini_load_calc scenario_A_costs)"
proof -
  have h: "sprinkler_spacing scenario_A_calc = 8 \<and>
     container_type scenario_A = ''Closed-Top'' \<and> system_type scenario_A = ''wet''"
    by code_simp
  then have n: "\<not> (sprinkler_spacing scenario_A_calc < 8 \<and>
        container_type scenario_A \<noteq> ''Open-Top'') \<and>
     \<not> (system_type scenario_A = ''dry'' \<and> ceiling_height_ft scenario_A < 25) \<and>
     \<not> (container_type scenario_A = ''Open-Top'' \<and>
        list_all (\<lambda>c. \<not> str_includes c ''Plastic'') (commodity_type scenario_A))"
    by simp
  have two: "map estimated_savings
     (generateOptimizationSuggestions no_digits mini_load_dry mini_load_calc scenario_A_costs) =
     [5832, 1136]"
    by code_simp
  from suggestions_sorted_descending[of no_digits scenario_A scenario_A_calc scenario_A_costs] n
    suggestions_sorted_descending[of no_digits mini_load_dry mini_load_calc scenario_A_costs]
    h two
  show ?thesis by blast
qed

subsection \<open>C9: labor and total of the cost breakdown\<close>




subsection \<open>C10: the configuration proposed by the spacing suggestion\<close>

text \<open>
  Claim C10. Whenever the spacing rule fires (sprinkler spacing below 8 and a container
  type other than Open-Top), the returned list has a suggestion of type
  \<open>spacing_optimization\<close>, and the \<open>new_configuration\<close> of every such suggestion is the
  input configuration with \<open>rack_spacing_ft\<close> overwritten by 8 and every other field
  unchanged.
\<close>

theorem spacing_suggestion_overwrites_rack_spacing:
  "sprinkler_spacing calculations < 8 \<and> container_type config \<noteq> ''Open-Top'' \<Longrightarrow>
     (\<exists>s \<in> set (generateOptimizationSuggestions toString config calculations costs).
        o_type s = ''spacing_optimization'') \<and>
     (\<forall>s \<in> set (generateOptimizationSuggestions toString config calculations costs).
        o_type s = ''spacing_optimization'' \<longrightarrow>
          new_configuration s = Some (config\<lparr>rack_spacing_ft := 8\<rparr>) \<and>
          new_configuration s =
            Some \<lparr> asrs_type = asrs_type config, container_type = container_type config,
                   rack_depth_ft = rack_depth_ft config, rack_spacing_ft = 8,
                   ceiling_height_ft = ceiling_height_ft config,
                   aisle_width_ft = aisle_width_ft config,
                   commodity_type = commodity_type config,
                   storage_height_ft = storage_height_ft config,
                   system_type = system_type config, building_type = building_type config,
                   sprinkler_coverage = sprinkler_coverage config,
                   expected_throughput = expected_throughput config \<rparr>)"
  by (cases config) (auto simp: generateOptimizationSuggestions_def Let_def set_array_sort)

theorem spacing_suggestion_overwrites_rack_spacing_witness:
  "sprinkler_spacing mini_load_calc < 8 \<and> container_type mini_load_dry \<noteq> ''Open-Top'' \<and>
   map new_configuration (filter (\<lambda>s. o_type s = ''spacing_optimization'')
     (generateOptimizationSuggestions no_digits mini_load_dry mini_load_calc scenario_A_costs)) =
     [Some (mini_load_dry\<lparr>rack_spacing_ft := 8\<rparr>)] \<and>
   rack_spacing_ft mini_load_dry = 4"
proof -
  have h: "sprinkler_spacing mini_load_calc < 8 \<and> container_type mini_load_dry \<noteq> ''Open-Top''"
    by code_simp
  have r: "map new_configuration (filter (\<lambda>s. o_type s = ''spacing_optimization'')
     (generateOptimizationSuggestions no_digits mini_load_dry mini_load_calc scenario_A_costs)) =
     [Some (mini_load_dry\<lparr>rack_spacing_ft := 8\<rparr>)] \<and>
   rack_spacing_ft mini_load_dry = 4"
    by code_simp
  from spacing_suggestion_overwrites_rack_spacing[OF h, of no_digits scenario_A_costs] h r
  show ?thesis by blast
qed

end
